theory Spec2Isabelle
  imports Main "HOL-Library.Word"
begin

section \<open>Byte buffers and the base64url helpers of the auth service\<close>

text \<open>
  The auth service (services/auth/src/server.js) stores credential identifiers and public
  keys as base64url text. Its two helpers wrap Node's Buffer codec:
  \<^verbatim>\<open>
  function base64urlToBuffer(base64url) {
    const base64 = base64url.replace(/-/g, '+').replace(/_/g, '/');
    const padLen = (4 - (base64.length % 4)) % 4;
    return Buffer.from(base64 + '='.repeat(padLen), 'base64');
  }
  function bufferToBase64url(buffer) {
    return Buffer.from(buffer).toString('base64')
      .replace(/\+/g, '-').replace(/\//g, '_').replace(/=/g, '');
  }
  \<close>
  A Buffer is a list of bytes. The codec itself is a Node built-in; it is modelled here
  after RFC 4648 section 4, which \<open>toString('base64')\<close> implements, with the forgiving
  reader of \<open>Buffer.from(s, 'base64')\<close>: characters outside the alphabet are skipped,
  both alphabets are read, and reading stops at the first \<open>=\<close>.
\<close>

type_synonym byte = "8 word"
type_synonym buffer = "byte list"

definition b64chars :: string where
  "b64chars = ''ABCDEFGHIJKLMNOPQRSTUVWXYZabcdefghijklmnopqrstuvwxyz0123456789+/''"

definition b64char :: "nat \<Rightarrow> char" where
  "b64char i = b64chars ! i"

text \<open>The 6-bit groups of a buffer, three bytes at a time, most significant first.\<close>

fun sextetsOf :: "buffer \<Rightarrow> nat list" where
  "sextetsOf [] = []"
| "sextetsOf [a] =
     (let n = unat a * 16 in [n div 64, n mod 64])"
| "sextetsOf [a, b] =
     (let n = (unat a * 256 + unat b) * 4 in [n div 4096, n div 64 mod 64, n mod 64])"
| "sextetsOf (a # b # c # rest) =
     (let n = unat a * 65536 + unat b * 256 + unat c
      in [n div 262144, n div 4096 mod 64, n div 64 mod 64, n mod 64] @ sextetsOf rest)"

definition toBase64 :: "buffer \<Rightarrow> string" where
  "toBase64 buf =
     map b64char (sextetsOf buf) @ replicate ((3 - length buf mod 3) mod 3) (CHR ''='')"

definition unbase64 :: "char \<Rightarrow> nat option" where
  "unbase64 c =
     (if c = CHR ''-'' then Some 62
      else if c = CHR ''_'' then Some 63
      else map_of (zip b64chars [0..<64]) c)"

fun readSextets :: "string \<Rightarrow> nat list" where
  "readSextets [] = []"
| "readSextets (c # cs) =
     (if c = CHR ''='' then []
      else case unbase64 c of
             None \<Rightarrow> readSextets cs
           | Some v \<Rightarrow> v # readSextets cs)"

fun bytesOf :: "nat list \<Rightarrow> buffer" where
  "bytesOf (s0 # s1 # s2 # s3 # rest) =
     (let n = s0 * 262144 + s1 * 4096 + s2 * 64 + s3
      in [of_nat (n div 65536), of_nat (n div 256 mod 256), of_nat (n mod 256)] @ bytesOf rest)"
| "bytesOf [s0, s1, s2] =
     (let n = s0 * 4096 + s1 * 64 + s2
      in [of_nat (n div 1024), of_nat (n div 4 mod 256)])"
| "bytesOf [s0, s1] = [of_nat ((s0 * 64 + s1) div 16)]"
| "bytesOf _ = []"

definition fromBase64 :: "string \<Rightarrow> buffer" where
  "fromBase64 s = bytesOf (readSextets s)"

definition replaceChar :: "char \<Rightarrow> char \<Rightarrow> string \<Rightarrow> string" where
  "replaceChar x y s = map (\<lambda>c. if c = x then y else c) s"

definition removeChar :: "char \<Rightarrow> string \<Rightarrow> string" where
  "removeChar x s = filter (\<lambda>c. c \<noteq> x) s"

definition base64urlToBuffer :: "string \<Rightarrow> buffer" where
  "base64urlToBuffer base64url =
     (let base64 = replaceChar (CHR ''_'') (CHR ''/'') (replaceChar (CHR ''-'') (CHR ''+'') base64url);
          padLen = (4 - length base64 mod 4) mod 4
      in fromBase64 (base64 @ replicate padLen (CHR ''='')))"

definition bufferToBase64url :: "buffer \<Rightarrow> string" where
  "bufferToBase64url buf =
     removeChar (CHR ''='')
       (replaceChar (CHR ''/'') (CHR ''_'')
         (replaceChar (CHR ''+'') (CHR ''-'') (toBase64 buf)))"

text \<open>
  \<open>Buffer.from\<close> applied to a string, as \<open>bufferToBase64url\<close> does when it is handed
  text, yields the UTF-8 bytes of the string. A string is kept here as the list of its
  UTF-8 bytes, one character for each byte, so these bytes are its characters.
\<close>

definition utf8Bytes :: "string \<Rightarrow> buffer" where
  "utf8Bytes s = map of_char s"


section \<open>Data model: the relational store\<close>

text \<open>
  The tables of the migrations (001_add_users.sql, 004_add_credentials_table.sql):
  \<^verbatim>\<open>
  users(id SERIAL PRIMARY KEY, username UNIQUE NOT NULL, email UNIQUE NOT NULL, created_at)
  credentials(id SERIAL PRIMARY KEY, user_id INT NOT NULL, credential_id TEXT UNIQUE NOT NULL,
              public_key TEXT NOT NULL, counter BIGINT DEFAULT 0, transports TEXT, created_at,
              FOREIGN KEY (user_id) REFERENCES users(id) ON DELETE CASCADE)
  \<close>
  A table is the list of its rows in insertion order. The \<open>created_at\<close> columns are
  never read by the auth service and are left out. The \<open>transports\<close> column holds the
  JSON text written by \<open>JSON.stringify\<close>; the model keeps the list of strings that this
  text denotes, and \<open>None\<close> for SQL NULL. Each SERIAL column draws from a sequence,
  kept as the next value to hand out.
\<close>

type_synonym exn = string

record user_row =
  u_id :: nat
  u_username :: string
  u_email :: string

record credential_row =
  c_id :: nat
  c_user_id :: nat
  c_credential_id :: string
  c_public_key :: string
  c_counter :: nat
  c_transports :: "string list option"

record db =
  users :: "user_row list"
  credentials :: "credential_row list"
  users_id_seq :: nat
  credentials_id_seq :: nat

text \<open>
  \<open>INSERT INTO users (username, email) VALUES ($1, $2) RETURNING id, username, email, created_at\<close>.
  The statement throws when a UNIQUE constraint is violated. The sequence value drawn for
  the id is consumed even then.
\<close>

definition insert_user :: "string \<Rightarrow> string \<Rightarrow> db \<Rightarrow> (exn + user_row) \<times> db" where
  "insert_user name mail d =
     (let new_id = users_id_seq d;
          d1 = d\<lparr>users_id_seq := Suc new_id\<rparr>
      in if \<exists>u \<in> set (users d). u_username u = name \<or> u_email u = mail
            \<or> u_id u = new_id
         then (Inl ''duplicate key value violates unique constraint'', d1)
         else let row = \<lparr>u_id = new_id, u_username = name, u_email = mail\<rparr>
              in (Inr row, d1\<lparr>users := users d1 @ [row]\<rparr>))"

text \<open>
  \<open>INSERT INTO credentials (user_id, credential_id, public_key, counter, transports)
  VALUES ($1, $2, $3, $4, $5)\<close>. It throws on a duplicate \<open>credential_id\<close> and when
  \<open>user_id\<close> names no row of \<open>users\<close>.
\<close>

definition insert_credential ::
    "nat \<Rightarrow> string \<Rightarrow> string \<Rightarrow> nat \<Rightarrow> string list \<Rightarrow> db \<Rightarrow> (exn + unit) \<times> db" where
  "insert_credential uid cid pk cnt ts d =
     (let new_id = credentials_id_seq d;
          d1 = d\<lparr>credentials_id_seq := Suc new_id\<rparr>
      in if \<exists>c \<in> set (credentials d). c_credential_id c = cid \<or> c_id c = new_id
         then (Inl ''duplicate key value violates unique constraint'', d1)
         else if \<not> (\<exists>u \<in> set (users d). u_id u = uid)
         then (Inl ''insert or update violates foreign key constraint'', d1)
         else let row = \<lparr>c_id = new_id, c_user_id = uid, c_credential_id = cid,
                         c_public_key = pk, c_counter = cnt, c_transports = Some ts\<rparr>
              in (Inr (), d1\<lparr>credentials := credentials d1 @ [row]\<rparr>))"

text \<open>
  \<open>ROLLBACK\<close> restores the tables as they were at \<open>BEGIN\<close>; sequences are not
  transactional and keep their position.
\<close>

definition rollback :: "db \<Rightarrow> db \<Rightarrow> db" where
  "rollback at_begin d = d\<lparr>users := users at_begin, credentials := credentials at_begin\<rparr>"

text \<open>\<open>SELECT id FROM users WHERE username = $1 OR email = $2\<close>\<close>

definition select_existing_user :: "db \<Rightarrow> string \<Rightarrow> string \<Rightarrow> nat list" where
  "select_existing_user d name mail =
     map u_id (filter (\<lambda>u. u_username u = name \<or> u_email u = mail) (users d))"

text \<open>\<open>FROM credentials c JOIN users u ON c.user_id = u.id\<close>\<close>

definition credentials_join_users :: "db \<Rightarrow> (credential_row \<times> user_row) list" where
  "credentials_join_users d =
     concat (map (\<lambda>c. map (\<lambda>u. (c, u)) (filter (\<lambda>u. c_user_id c = u_id u) (users d)))
                 (credentials d))"

text \<open>\<open>SELECT c.credential_id, c.transports ... WHERE u.username = $1\<close>\<close>

definition select_credentials_of_username ::
    "db \<Rightarrow> string \<Rightarrow> (string \<times> string list option) list" where
  "select_credentials_of_username d name =
     map (\<lambda>(c, u). (c_credential_id c, c_transports c))
         (filter (\<lambda>(c, u). u_username u = name) (credentials_join_users d))"

text \<open>\<open>SELECT c.*, u.id as user_id, u.username, u.email ... WHERE c.credential_id = $1\<close>\<close>

definition select_credential_by_id :: "db \<Rightarrow> string \<Rightarrow> (credential_row \<times> user_row) list" where
  "select_credential_by_id d cid =
     filter (\<lambda>(c, u). c_credential_id c = cid) (credentials_join_users d)"

text \<open>\<open>UPDATE credentials SET counter = $1 WHERE credential_id = $2\<close>\<close>

definition update_counter :: "nat \<Rightarrow> string \<Rightarrow> db \<Rightarrow> db" where
  "update_counter n cid d =
     d\<lparr>credentials :=
         map (\<lambda>c. if c_credential_id c = cid then c\<lparr>c_counter := n\<rparr> else c) (credentials d)\<rparr>"

section \<open>Data model: the session and the messages\<close>

text \<open>
  \<open>req.session\<close> carries the Challenge Session fields (\<open>currentChallenge\<close>,
  \<open>registrationUser\<close>) and the Authenticated Session fields (\<open>userId\<close>,
  \<open>username\<close>); an absent property is \<open>None\<close>.
\<close>

record pending_user =
  p_userId :: string
  p_username :: string
  p_email :: string

record session =
  currentChallenge :: "string option"
  registrationUser :: "pending_user option"
  userId :: "nat option"
  username :: "string option"

text \<open>JavaScript truthiness of a property that holds a string when present.\<close>

definition truthy :: "string option \<Rightarrow> bool" where
  "truthy v = (case v of None \<Rightarrow> False | Some s \<Rightarrow> s \<noteq> [])"

text \<open>
  An error response is its HTTP status and the text of its \<open>error\<close> property; the first
  component names the class of the error taxonomy that the branch belongs to.
\<close>

datatype error_kind =
  ValidationError | ConflictError | StateError | NotFoundError | VerificationError | ServerError

datatype http_error = HttpError error_kind nat string

fun kind :: "http_error \<Rightarrow> error_kind" where
  "kind (HttpError k st msg) = k"

record user_public =
  up_id :: nat
  up_username :: string
  up_email :: string

text \<open>
  What the authenticator sends back, as far as the ceremony reads it. The browser posts
  the credential as JSON (frontend app.js, \<open>JSON.stringify({ credential })\<close>), so
  \<open>rawId\<close> arrives as text: the base64url text of the authenticator's raw identifier
  when the browser library made it.
\<close>

record registration_response =
  rr_challenge :: string
  rr_origin :: string
  rr_rpId :: string
  rr_signatureValid :: bool
  rr_flagsOk :: bool
  rr_credentialID :: buffer
  rr_credentialPublicKey :: buffer
  rr_counter :: nat
  rr_transports :: "string list option"

record assertion_response =
  as_rawId :: string
  as_challenge :: string
  as_origin :: string
  as_rpId :: string
  as_signedBy :: buffer
  as_counter :: nat

text \<open>Arguments and results of the four functions imported from @simplewebauthn/server.\<close>

record registration_options_args =
  roa_rpName :: string
  roa_rpID :: string
  roa_userID :: string
  roa_userName :: string
  roa_userDisplayName :: string
  roa_attestationType :: string
  roa_residentKey :: string
  roa_userVerification :: string

record allow_credential =
  ac_id :: buffer
  ac_type :: string
  ac_transports :: "string list"

record authentication_options_args =
  aoa_rpID :: string
  aoa_userVerification :: string
  aoa_allowCredentials :: "allow_credential list option"

record 'a ceremony_options =
  challenge :: string
  params :: 'a

record registration_verify_args =
  rva_response :: "registration_response option"
  rva_expectedChallenge :: string
  rva_expectedOrigin :: string
  rva_expectedRPID :: string

record registration_info =
  ri_credentialPublicKey :: buffer
  ri_credentialID :: buffer
  ri_counter :: nat

record registration_verification =
  rv_verified :: bool
  rv_registrationInfo :: "registration_info option"

record authenticator_device =
  ad_credentialID :: buffer
  ad_credentialPublicKey :: buffer
  ad_counter :: nat

record authentication_verify_args =
  ava_response :: assertion_response
  ava_expectedChallenge :: string
  ava_expectedOrigin :: string
  ava_expectedRPID :: string
  ava_authenticator :: authenticator_device

record authentication_info =
  ai_newCounter :: nat

record authentication_verification =
  av_verified :: bool
  av_authenticationInfo :: "authentication_info option"

type_synonym registration_options_fn =
  "registration_options_args \<Rightarrow> exn + registration_options_args ceremony_options"
type_synonym registration_verify_fn =
  "registration_verify_args \<Rightarrow> exn + registration_verification"
type_synonym authentication_options_fn =
  "authentication_options_args \<Rightarrow> exn + authentication_options_args ceremony_options"
type_synonym authentication_verify_fn =
  "authentication_verify_args \<Rightarrow> exn + authentication_verification"

section \<open>The WebAuthn configuration\<close>

definition rpName :: string where "rpName = ''Coffelist''"
definition rpID :: string where "rpID = ''localhost''"
definition origin :: string where "origin = ''http://localhost:8080''"


section \<open>The ceremony handlers\<close>

text \<open>
  Each route handler of server.js is a function from the store, the session of the
  request and the request body to the response, the store and the session afterwards.
  The functions of @simplewebauthn/server are arguments of the handlers, named as the
  source imports them; a thrown exception is \<open>Inl\<close>. The outer \<open>catch\<close> of every
  handler answers 500 and discards the exception. Queries throw only through the
  constraints of the schema.
\<close>

text \<open>
  \<open>POST /register/start\<close> (lines 115-161). \<open>newUserId\<close> is the string built from
  \<open>Date.now()\<close> and \<open>Math.random()\<close>.
\<close>

record register_start_body =
  rsb_username :: "string option"
  rsb_email :: "string option"

definition register_start ::
    "registration_options_fn \<Rightarrow> string \<Rightarrow> db \<Rightarrow> session \<Rightarrow> register_start_body
      \<Rightarrow> (http_error + registration_options_args ceremony_options) \<times> session" where
  "register_start generateRegistrationOptions newUserId d s body =
     (if \<not> truthy (rsb_username body) \<or> \<not> truthy (rsb_email body)
      then (Inl (HttpError ValidationError 400 ''Username and email are required''), s)
      else
        let name = the (rsb_username body); mail = the (rsb_email body)
        in if length (select_existing_user d name mail) > 0
           then (Inl (HttpError ConflictError 409 ''Username or email already exists''), s)
           else
             case generateRegistrationOptions
                    \<lparr>roa_rpName = rpName, roa_rpID = rpID, roa_userID = newUserId,
                     roa_userName = name, roa_userDisplayName = name,
                     roa_attestationType = ''none'', roa_residentKey = ''preferred'',
                     roa_userVerification = ''preferred''\<rparr> of
               Inl e \<Rightarrow> (Inl (HttpError ServerError 500 ''Failed to start registration''), s)
             | Inr options \<Rightarrow>
                 (Inr options,
                  s\<lparr>currentChallenge := Some (challenge options),
                    registrationUser :=
                      Some \<lparr>p_userId = newUserId, p_username = name, p_email = mail\<rparr>\<rparr>))"

text \<open>
  \<open>POST /register/verify\<close> (lines 164-242). The body holds \<open>credential\<close>, which may be
  absent. The two inserts run between \<open>BEGIN\<close> and \<open>COMMIT\<close>; the inner \<open>catch\<close>
  rolls back and rethrows.
\<close>

definition register_verify ::
    "registration_verify_fn \<Rightarrow> db \<Rightarrow> session \<Rightarrow> registration_response option
      \<Rightarrow> (http_error + user_public) \<times> db \<times> session" where
  "register_verify verifyRegistrationResponse d s credential =
     (let expectedChallenge = currentChallenge s;
          userData = registrationUser s
      in if \<not> truthy expectedChallenge \<or> userData = None
         then (Inl (HttpError StateError 400 ''No registration in progress''), d, s)
         else
           case verifyRegistrationResponse
                  \<lparr>rva_response = credential,
                   rva_expectedChallenge = the expectedChallenge,
                   rva_expectedOrigin = origin,
                   rva_expectedRPID = rpID\<rparr> of
             Inl e \<Rightarrow> (Inl (HttpError ServerError 500 ''Failed to verify registration''), d, s)
           | Inr verification \<Rightarrow>
               if \<not> rv_verified verification \<or> rv_registrationInfo verification = None
               then (Inl (HttpError VerificationError 400 ''Verification failed''), d, s)
               else
                 let info = the (rv_registrationInfo verification);
                     ud = the userData
                 in (case insert_user (p_username ud) (p_email ud) d of
                      (Inl dbError, d1) \<Rightarrow>
                        (Inl (HttpError ServerError 500 ''Failed to verify registration''),
                         rollback d d1, s)
                    | (Inr user, d1) \<Rightarrow>
                        (case credential of
                           None \<Rightarrow>
                             (Inl (HttpError ServerError 500 ''Failed to verify registration''),
                              rollback d d1, s)
                         | Some cred \<Rightarrow>
                             (case insert_credential (u_id user)
                                     (bufferToBase64url (ri_credentialID info))
                                     (bufferToBase64url (ri_credentialPublicKey info))
                                     (ri_counter info)
                                     (case rr_transports cred of None \<Rightarrow> [] | Some ts \<Rightarrow> ts)
                                     d1 of
                                (Inl dbError, d2) \<Rightarrow>
                                  (Inl (HttpError ServerError 500 ''Failed to verify registration''),
                                   rollback d d2, s)
                              | (Inr u, d2) \<Rightarrow>
                                  (Inr \<lparr>up_id = u_id user, up_username = u_username user,
                                        up_email = u_email user\<rparr>,
                                   d2,
                                   s\<lparr>currentChallenge := None, registrationUser := None,
                                     userId := Some (u_id user),
                                     username := Some (u_username user)\<rparr>)))))"

text \<open>\<open>POST /login/start\<close> (lines 247-289).\<close>

definition login_start ::
    "authentication_options_fn \<Rightarrow> db \<Rightarrow> session \<Rightarrow> string option
      \<Rightarrow> (http_error + authentication_options_args ceremony_options) \<times> session" where
  "login_start generateAuthenticationOptions d s username_given =
     (let rows = (if truthy username_given
                  then select_credentials_of_username d (the username_given) else [])
      in if truthy username_given \<and> length rows = 0
         then (Inl (HttpError NotFoundError 404 ''User not found''), s)
         else
           let allowCredentials =
                 (if truthy username_given
                  then Some (map (\<lambda>(cid, ts).
                                \<lparr>ac_id = base64urlToBuffer cid, ac_type = ''public-key'',
                                 ac_transports = (case ts of None \<Rightarrow> [] | Some t \<Rightarrow> t)\<rparr>) rows)
                  else None)
           in case generateAuthenticationOptions
                     \<lparr>aoa_rpID = rpID, aoa_userVerification = ''preferred'',
                      aoa_allowCredentials = allowCredentials\<rparr> of
                Inl e \<Rightarrow> (Inl (HttpError ServerError 500 ''Failed to start authentication''), s)
              | Inr options \<Rightarrow> (Inr options, s\<lparr>currentChallenge := Some (challenge options)\<rparr>))"

text \<open>
  \<open>POST /login/verify\<close> (lines 292-360). Reading \<open>credential.rawId\<close> of an absent
  credential throws, and so does reading \<open>newCounter\<close> of an absent
  \<open>authenticationInfo\<close>. Line 301 hands the text \<open>credential.rawId\<close> to
  \<open>bufferToBase64url\<close>, which encodes the bytes of that text.
\<close>

definition login_verify ::
    "authentication_verify_fn \<Rightarrow> db \<Rightarrow> session \<Rightarrow> assertion_response option
      \<Rightarrow> (http_error + user_public) \<times> db \<times> session" where
  "login_verify verifyAuthenticationResponse d s credential =
     (let expectedChallenge = currentChallenge s
      in if \<not> truthy expectedChallenge
         then (Inl (HttpError StateError 400 ''No authentication in progress''), d, s)
         else
           case credential of
             None \<Rightarrow> (Inl (HttpError ServerError 500 ''Failed to verify authentication''), d, s)
           | Some cred \<Rightarrow>
               let credentialID = bufferToBase64url (utf8Bytes (as_rawId cred))
               in (case select_credential_by_id d credentialID of
                    [] \<Rightarrow> (Inl (HttpError NotFoundError 404 ''Credential not found''), d, s)
                  | (credentialRecord, owner) # others \<Rightarrow>
                      (case verifyAuthenticationResponse
                              \<lparr>ava_response = cred,
                               ava_expectedChallenge = the expectedChallenge,
                               ava_expectedOrigin = origin,
                               ava_expectedRPID = rpID,
                               ava_authenticator =
                                 \<lparr>ad_credentialID =
                                    base64urlToBuffer (c_credential_id credentialRecord),
                                  ad_credentialPublicKey =
                                    base64urlToBuffer (c_public_key credentialRecord),
                                  ad_counter = c_counter credentialRecord\<rparr>\<rparr> of
                         Inl e \<Rightarrow>
                           (Inl (HttpError ServerError 500 ''Failed to verify authentication''), d, s)
                       | Inr verification \<Rightarrow>
                           if \<not> av_verified verification
                           then (Inl (HttpError VerificationError 400 ''Verification failed''), d, s)
                           else
                             (case av_authenticationInfo verification of
                                None \<Rightarrow>
                                  (Inl (HttpError ServerError 500 ''Failed to verify authentication''),
                                   d, s)
                              | Some info \<Rightarrow>
                                  (Inr \<lparr>up_id = u_id owner, up_username = u_username owner,
                                        up_email = u_email owner\<rparr>,
                                   update_counter (ai_newCounter info) credentialID d,
                                   s\<lparr>currentChallenge := None,
                                     userId := Some (u_id owner),
                                     username := Some (u_username owner)\<rparr>)))))"

section \<open>The library functions, from the specification\<close>

text \<open>
  Modelled from the spec: \<open>generateRegistrationOptions\<close> is imported from the package
  @simplewebauthn/server, whose code is not part of the repository. Section 4.1: start "generates a fresh random challenge" and "builds ceremony
  options containing relying-party identity, the temporary user identifier, requested
  authenticator properties". The first argument is the random challenge drawn.
\<close>

definition generateRegistrationOptions :: "string \<Rightarrow> registration_options_fn" where
  "generateRegistrationOptions fresh args = Inr \<lparr>challenge = fresh, params = args\<rparr>"

text \<open>
  Modelled from the spec: \<open>generateAuthenticationOptions\<close> is imported from the package
  @simplewebauthn/server, whose code is not part of the repository. Section 4.2: the options "list only that user's credential identifiers as
  allowed credentials (with their transport hints), or omit the allow-list entirely", with
  "a fresh challenge". The first argument is the random challenge drawn.
\<close>

definition generateAuthenticationOptions :: "string \<Rightarrow> authentication_options_fn" where
  "generateAuthenticationOptions fresh args = Inr \<lparr>challenge = fresh, params = args\<rparr>"

text \<open>
  Modelled from the spec: \<open>verifyRegistrationResponse\<close> is imported from the package
  @simplewebauthn/server, whose code is not part of the repository. Section 4.1: it "verifies the authenticator's signed response against the
  expected challenge, expected origin, and expected relying-party identity using standard
  WebAuthn attestation verification rules (signature validity, origin match, challenge
  match, flags)", and verification fails "if any check fails". A request without a
  response has nothing to verify and throws.
\<close>

definition verifyRegistrationResponse :: registration_verify_fn where
  "verifyRegistrationResponse a =
     (case rva_response a of
        None \<Rightarrow> Inl ''response is undefined''
      | Some r \<Rightarrow>
          if rr_challenge r = rva_expectedChallenge a \<and> rr_origin r = rva_expectedOrigin a
             \<and> rr_rpId r = rva_expectedRPID a \<and> rr_signatureValid r \<and> rr_flagsOk r
          then Inr \<lparr>rv_verified = True,
                    rv_registrationInfo =
                      Some \<lparr>ri_credentialPublicKey = rr_credentialPublicKey r,
                            ri_credentialID = rr_credentialID r,
                            ri_counter = rr_counter r\<rparr>\<rparr>
          else Inr \<lparr>rv_verified = False, rv_registrationInfo = None\<rparr>)"

text \<open>
  Modelled from the spec: \<open>verifyAuthenticationResponse\<close> is imported from the package
  @simplewebauthn/server, whose code is not part of the repository. Section 4.2: it "verifies the signed assertion against the expected
  challenge/origin/relying-party and against the stored public key and counter", fails "on
  any mismatch", and "must reject (or at minimum must not advance) if the reported counter
  is not strictly greater than the stored counter in the same evaluation that checks the
  signature". The signature is valid when the key that signed the assertion is the stored
  public key. The new counter is the one the authenticator reports.
\<close>

definition verifyAuthenticationResponse :: authentication_verify_fn where
  "verifyAuthenticationResponse a =
     (let r = ava_response a; dev = ava_authenticator a
      in Inr \<lparr>av_verified =
                 (as_challenge r = ava_expectedChallenge a \<and> as_origin r = ava_expectedOrigin a
                  \<and> as_rpId r = ava_expectedRPID a
                  \<and> as_signedBy r = ad_credentialPublicKey dev
                  \<and> ad_counter dev < as_counter r),
               av_authenticationInfo = Some \<lparr>ai_newCounter = as_counter r\<rparr>\<rparr>)"

section \<open>Predicates used to state the properties\<close>

text \<open>No credential row references a user that does not exist.\<close>

definition credentials_owned :: "db \<Rightarrow> bool" where
  "credentials_owned d =
     list_all (\<lambda>c. list_ex (\<lambda>u. u_id u = c_user_id c) (users d)) (credentials d)"

text \<open>
  The store after a sequence of registration verify calls, each with its verifier, its
  session and its body: the states reachable through registration verify.
\<close>

fun register_verify_calls ::
    "(registration_verify_fn \<times> session \<times> registration_response option) list \<Rightarrow> db \<Rightarrow> db" where
  "register_verify_calls [] d = d"
| "register_verify_calls ((vf, s, credential) # calls) d =
     register_verify_calls calls (fst (snd (register_verify vf d s credential)))"







text \<open>The store right after the migrations: the three sample users, no credential.\<close>

definition migrated_db :: db where
  "migrated_db =
     \<lparr>users = [\<lparr>u_id = 1, u_username = ''james'', u_email = ''james@bluebottle.com''\<rparr>,
               \<lparr>u_id = 2, u_username = ''duane'', u_email = ''duane@stumptown.com''\<rparr>,
               \<lparr>u_id = 3, u_username = ''nikhil'', u_email = ''nikhil@coffelist.com''\<rparr>],
      credentials = [],
      users_id_seq = 4,
      credentials_id_seq = 1\<rparr>"

definition empty_session :: session where
  "empty_session =
     \<lparr>currentChallenge = None, registrationUser = None, userId = None, username = None\<rparr>"


section \<open>Two requests in flight\<close>

text \<open>
  The handler of \<open>POST /login/verify\<close> awaits three times: the SELECT of the credential
  row (line 304), the verification by the library (line 319) and the UPDATE of the counter
  (line 336). While it waits, the handler of another request runs. A call in flight
  is the handler between two awaits, with the local variables it holds and the
  \<open>req.session\<close> object of its own request; \<open>login_verify_step\<close> runs it up to its
  next await.
\<close>

datatype login_verify_call =
    Received session "assertion_response option"
  | Selected session assertion_response credential_row user_row
  | Checked session assertion_response credential_row user_row authentication_verification
  | Responded "http_error + user_public" session

fun login_verify_step ::
    "authentication_verify_fn \<Rightarrow> db \<Rightarrow> login_verify_call \<Rightarrow> db \<times> login_verify_call" where
  "login_verify_step vf d (Received s credential) =
     (if \<not> truthy (currentChallenge s)
      then (d, Responded (Inl (HttpError StateError 400 ''No authentication in progress'')) s)
      else
        case credential of
          None \<Rightarrow>
            (d, Responded (Inl (HttpError ServerError 500 ''Failed to verify authentication'')) s)
        | Some cred \<Rightarrow>
            (case select_credential_by_id d (bufferToBase64url (utf8Bytes (as_rawId cred))) of
               [] \<Rightarrow> (d, Responded (Inl (HttpError NotFoundError 404 ''Credential not found'')) s)
             | (credentialRecord, owner) # others \<Rightarrow>
                 (d, Selected s cred credentialRecord owner)))"
| "login_verify_step vf d (Selected s cred credentialRecord owner) =
     (case vf \<lparr>ava_response = cred,
               ava_expectedChallenge = the (currentChallenge s),
               ava_expectedOrigin = origin,
               ava_expectedRPID = rpID,
               ava_authenticator =
                 \<lparr>ad_credentialID = base64urlToBuffer (c_credential_id credentialRecord),
                  ad_credentialPublicKey = base64urlToBuffer (c_public_key credentialRecord),
                  ad_counter = c_counter credentialRecord\<rparr>\<rparr> of
        Inl e \<Rightarrow>
          (d, Responded (Inl (HttpError ServerError 500 ''Failed to verify authentication'')) s)
      | Inr verification \<Rightarrow>
          if \<not> av_verified verification
          then (d, Responded (Inl (HttpError VerificationError 400 ''Verification failed'')) s)
          else (d, Checked s cred credentialRecord owner verification))"
| "login_verify_step vf d (Checked s cred credentialRecord owner verification) =
     (case av_authenticationInfo verification of
        None \<Rightarrow>
          (d, Responded (Inl (HttpError ServerError 500 ''Failed to verify authentication'')) s)
      | Some info \<Rightarrow>
          (update_counter (ai_newCounter info) (bufferToBase64url (utf8Bytes (as_rawId cred))) d,
           Responded
             (Inr \<lparr>up_id = u_id owner, up_username = u_username owner,
                   up_email = u_email owner\<rparr>)
             (s\<lparr>currentChallenge := None, userId := Some (u_id owner),
                username := Some (u_username owner)\<rparr>)))"
| "login_verify_step vf d (Responded res s) = (d, Responded res s)"

text \<open>
  Two requests and a schedule: the list says whose handler runs next, each time up to its
  next await. Three turns take a request from its arrival to its response.
\<close>

datatype turn = First | Second

fun run_two ::
    "authentication_verify_fn \<Rightarrow> turn list \<Rightarrow> db \<times> login_verify_call \<times> login_verify_call
      \<Rightarrow> db \<times> login_verify_call \<times> login_verify_call" where
  "run_two vf [] st = st"
| "run_two vf (First # sched) (d, a, b) =
     (case login_verify_step vf d a of (d', a') \<Rightarrow> run_two vf sched (d', a', b))"
| "run_two vf (Second # sched) (d, a, b) =
     (case login_verify_step vf d b of (d', b') \<Rightarrow> run_two vf sched (d', a, b'))"

section \<open>A sample run\<close>

text \<open>
  The user "ana" registers a passkey in the migrated store and presents it to log in. The
  credential identifier is the bytes 1, 2, 3 (base64url \<open>AQID\<close>, which is also the
  \<open>rawId\<close> text the browser sends), the public key the bytes 9, 8, 7, 6 (base64url
  \<open>CQgHBg\<close>).
\<close>

definition ana_pending_session :: session where
  "ana_pending_session =
     \<lparr>currentChallenge = Some ''c1'',
      registrationUser =
        Some \<lparr>p_userId = ''user_1'', p_username = ''ana'', p_email = ''ana@example.com''\<rparr>,
      userId = None, username = None\<rparr>"

definition bob_pending_session :: session where
  "bob_pending_session =
     \<lparr>currentChallenge = Some ''c1'',
      registrationUser =
        Some \<lparr>p_userId = ''user_2'', p_username = ''bob'', p_email = ''bob@example.com''\<rparr>,
      userId = None, username = None\<rparr>"

definition ana_attestation :: registration_response where
  "ana_attestation =
     \<lparr>rr_challenge = ''c1'', rr_origin = ''http://localhost:8080'', rr_rpId = ''localhost'',
      rr_signatureValid = True, rr_flagsOk = True,
      rr_credentialID = [1, 2, 3], rr_credentialPublicKey = [9, 8, 7, 6],
      rr_counter = 5, rr_transports = Some [''internal'']\<rparr>"

definition ana_row :: user_row where
  "ana_row = \<lparr>u_id = 4, u_username = ''ana'', u_email = ''ana@example.com''\<rparr>"

definition ana_credential :: credential_row where
  "ana_credential =
     \<lparr>c_id = 1, c_user_id = 4, c_credential_id = ''AQID'', c_public_key = ''CQgHBg'',
      c_counter = 5, c_transports = Some [''internal'']\<rparr>"

definition registered_db :: db where
  "registered_db =
     \<lparr>users = users migrated_db @ [ana_row],
      credentials = [ana_credential],
      users_id_seq = 5,
      credentials_id_seq = 2\<rparr>"

definition login_session :: session where
  "login_session =
     \<lparr>currentChallenge = Some ''c2'', registrationUser = None, userId = None, username = None\<rparr>"

definition ana_assertion :: assertion_response where
  "ana_assertion =
     \<lparr>as_rawId = ''AQID'', as_challenge = ''c2'', as_origin = ''http://localhost:8080'',
      as_rpId = ''localhost'', as_signedBy = [9, 8, 7, 6], as_counter = 6\<rparr>"

text \<open>
  The same assertion with a \<open>rawId\<close> written by hand: the text whose bytes are 1, 2, 3,
  which line 301 encodes to \<open>AQID\<close>.
\<close>

definition crafted_assertion :: assertion_response where
  "crafted_assertion = ana_assertion\<lparr>as_rawId := [CHR 0x01, CHR 0x02, CHR 0x03]\<rparr>"

section \<open>The base64url helpers are inverse to each other\<close>

lemma byte_lt: "unat (a::byte) < 256"
  using unsigned_less[of a, where 'a=nat] by simp

lemma sextets4_sum:
  "(n::nat) div 262144 * 262144 + n div 4096 mod 64 * 4096 + n div 64 mod 64 * 64 + n mod 64 = n"
proof -
  have a: "n div 4096 = n div 64 div 64" by (simp add: div_mult2_eq[symmetric])
  have b: "n div 262144 = n div 64 div 64 div 64" by (simp add: div_mult2_eq[symmetric])
  define q1 where "q1 = n div 64"
  define q2 where "q2 = q1 div 64"
  have 1: "n = q1 * 64 + n mod 64" unfolding q1_def by simp
  have 2: "q1 = q2 * 64 + q1 mod 64" unfolding q2_def by simp
  have 3: "q2 = q2 div 64 * 64 + q2 mod 64" by simp
  show ?thesis unfolding a b q1_def[symmetric] q2_def[symmetric] using 1 2 3 by linarith
qed

lemma sextets3_sum: "(n::nat) div 4096 * 4096 + n div 64 mod 64 * 64 + n mod 64 = n"
proof -
  have a: "n div 4096 = n div 64 div 64" by (simp add: div_mult2_eq[symmetric])
  define q1 where "q1 = n div 64"
  have 1: "n = q1 * 64 + n mod 64" unfolding q1_def by simp
  have 2: "q1 = q1 div 64 * 64 + q1 mod 64" by simp
  show ?thesis unfolding a q1_def[symmetric] using 1 2 by linarith
qed

lemma div_high: "r < k \<Longrightarrow> ((x::nat) * k + r) div k = x"
  by simp

lemma mod_low: "r < k \<Longrightarrow> ((x::nat) * k + r) mod k = r"
  by simp

lemma byte3_first: "b < 256 \<Longrightarrow> c < 256 \<Longrightarrow> ((a::nat) * 65536 + b * 256 + c) div 65536 = a"
  using div_high[of "b * 256 + c" 65536 a] by (simp add: add.assoc)

lemma byte3_second:
  assumes bb: "b < 256" and cc: "c < 256"
  shows "((a::nat) * 65536 + b * 256 + c) div 256 mod 256 = b"
proof -
  have "a * 65536 + b * 256 + c = (a * 256 + b) * 256 + c" by simp
  then have "(a * 65536 + b * 256 + c) div 256 = a * 256 + b"
    using div_high[OF cc, of "a * 256 + b"] by simp
  then show ?thesis using mod_low[OF bb, of a] by simp
qed

lemma byte3_third:
  assumes cc: "c < 256"
  shows "((a::nat) * 65536 + b * 256 + c) mod 256 = c"
proof -
  have "a * 65536 + b * 256 + c = (a * 256 + b) * 256 + c" by simp
  then show ?thesis using mod_low[OF cc, of "a * 256 + b"] by (simp add: mult.commute)
qed

lemma byte2_first: "b < 256 \<Longrightarrow> ((a::nat) * 256 + b) * 4 div 1024 = a"
proof -
  assume bb: "b < 256"
  have "(a * 256 + b) * 4 = a * 1024 + b * 4" by simp
  moreover have "b * 4 < 1024" using bb by simp
  ultimately show ?thesis using div_high[of "b * 4" 1024 a] by simp
qed

lemma byte2_second: "b < 256 \<Longrightarrow> ((a::nat) * 256 + b) * 4 div 4 mod 256 = b"
  by simp

lemma bytesOf_group3:
  fixes a b c :: byte
  shows "bytesOf ((let n = unat a * 65536 + unat b * 256 + unat c
                   in [n div 262144, n div 4096 mod 64, n div 64 mod 64, n mod 64]) @ r)
         = [a, b, c] @ bytesOf r"
proof -
  define n where "n = unat a * 65536 + unat b * 256 + unat c"
  have 1: "n div 65536 = unat a"
    unfolding n_def by (rule byte3_first[OF byte_lt byte_lt])
  have 2: "n div 256 mod 256 = unat b"
    unfolding n_def by (rule byte3_second[OF byte_lt byte_lt])
  have 3: "n mod 256 = unat c"
    unfolding n_def by (rule byte3_third[OF byte_lt])
  show ?thesis
    unfolding Let_def n_def[symmetric]
    by (simp add: sextets4_sum 1 2 3 Let_def)
qed

lemma bytesOf_group2:
  fixes a b :: byte
  shows "bytesOf (let n = (unat a * 256 + unat b) * 4
                  in [n div 4096, n div 64 mod 64, n mod 64]) = [a, b]"
proof -
  define n where "n = (unat a * 256 + unat b) * 4"
  have 1: "n div 1024 = unat a"
    unfolding n_def by (rule byte2_first[OF byte_lt])
  have 2: "n div 4 mod 256 = unat b"
    unfolding n_def by (rule byte2_second[OF byte_lt])
  show ?thesis
    unfolding Let_def n_def[symmetric]
    by (simp add: sextets3_sum 1 2 Let_def)
qed

lemma bytesOf_group1:
  fixes a :: byte
  shows "bytesOf (let n = unat a * 16 in [n div 64, n mod 64]) = [a]"
proof -
  define n where "n = unat a * 16"
  have m: "n div 64 * 64 + n mod 64 = n"
    by simp
  have 1: "n div 16 = unat a" unfolding n_def by simp
  show ?thesis
    unfolding Let_def n_def[symmetric]
    by (simp add: m 1)
qed

lemma bytesOf_sextetsOf: "bytesOf (sextetsOf buf) = buf"
proof (induction buf rule: sextetsOf.induct)
  case 1
  show ?case by simp
next
  case (2 a)
  show ?case using bytesOf_group1[of a] by simp
next
  case (3 a b)
  show ?case using bytesOf_group2[of a b] by simp
next
  case (4 a b c rest)
  have "sextetsOf (a # b # c # rest) =
        (let n = unat a * 65536 + unat b * 256 + unat c
         in [n div 262144, n div 4096 mod 64, n div 64 mod 64, n mod 64]) @ sextetsOf rest"
    by (simp add: Let_def)
  then show ?case using bytesOf_group3[of a b c "sextetsOf rest"] 4 by simp
qed

lemma sextetsOf_lt: "s \<in> set (sextetsOf buf) \<Longrightarrow> s < 64"
proof (induction buf arbitrary: s rule: sextetsOf.induct)
  case 1
  then show ?case by simp
next
  case (2 a)
  have "unat a * 16 div 64 < 64" using byte_lt[of a] by simp
  with 2 show ?case by (auto simp: Let_def)
next
  case (3 a b)
  have "(unat a * 256 + unat b) * 4 div 4096 < 64" using byte_lt[of a] byte_lt[of b] by simp
  with 3 show ?case by (auto simp: Let_def)
next
  case (4 a b c rest)
  have "(unat a * 65536 + unat b * 256 + unat c) div 262144 < 64"
    using byte_lt[of a] byte_lt[of b] byte_lt[of c] by simp
  with 4 show ?case by (auto simp: Let_def)
qed

lemma b64chars_distinct: "distinct b64chars"
  by (simp add: b64chars_def)

lemma b64chars_length: "length b64chars = 64"
  by (simp add: b64chars_def)

lemma map_of_b64chars: "i < 64 \<Longrightarrow> map_of (zip b64chars [0..<64]) (b64chars ! i) = Some i"
  using map_of_zip_nth[of b64chars "[0..<64]" i] b64chars_distinct b64chars_length by simp

lemma b64char_not_special:
  assumes "i < 64"
  shows "b64char i \<noteq> CHR ''='' \<and> b64char i \<noteq> CHR ''-'' \<and> b64char i \<noteq> CHR ''_''"
proof -
  from assms have "b64chars ! i \<in> set b64chars" by (simp add: b64chars_length)
  moreover have "CHR ''='' \<notin> set b64chars" "CHR ''-'' \<notin> set b64chars"
      "CHR ''_'' \<notin> set b64chars"
    by (simp_all add: b64chars_def)
  ultimately show ?thesis unfolding b64char_def by metis
qed

lemma unbase64_b64char:
  assumes "i < 64"
  shows "unbase64 (b64char i) = Some i"
  using assms b64char_not_special[of i] map_of_b64chars[of i]
  by (simp add: unbase64_def b64char_def)

lemma readSextets_padding: "readSextets (replicate k (CHR ''='')) = []"
  by (cases k) simp_all

lemma readSextets_encoded:
  "\<forall>s \<in> set xs. s < 64 \<Longrightarrow> readSextets (map b64char xs @ replicate k (CHR ''='')) = xs"
proof (induction xs)
  case Nil
  show ?case by (simp add: readSextets_padding)
next
  case (Cons x xs)
  then show ?case
    using unbase64_b64char[of x] b64char_not_special[of x] by simp
qed

lemma url_there_and_back:
  assumes "\<forall>s \<in> set xs. s < 64"
  shows "replaceChar (CHR ''_'') (CHR ''/'') (replaceChar (CHR ''-'') (CHR ''+'')
           (removeChar (CHR ''='') (replaceChar (CHR ''/'') (CHR ''_'')
              (replaceChar (CHR ''+'') (CHR ''-'') (map b64char xs @ replicate k (CHR ''=''))))))
         = map b64char xs"
  using assms
proof (induction xs)
  case Nil
  show ?case by (simp add: replaceChar_def removeChar_def)
next
  case (Cons x xs)
  then show ?case
    using b64char_not_special[of x]
    by (auto simp: replaceChar_def removeChar_def)
qed

section \<open>The store under registration\<close>

lemma insert_user_tables:
  assumes "insert_user name mail d = (res, d1)"
  shows "credentials d1 = credentials d \<and>
         (case res of Inl e \<Rightarrow> users d1 = users d
                    | Inr u \<Rightarrow> users d1 = users d @ [u])"
  using assms unfolding insert_user_def Let_def
  by (auto split: if_splits)

lemma insert_credential_tables:
  assumes "insert_credential uid cid pk n ts d = (res, d1)"
  shows "users d1 = users d \<and>
         (case res of Inl e \<Rightarrow> credentials d1 = credentials d
                    | Inr x \<Rightarrow> \<exists>c. credentials d1 = credentials d @ [c] \<and> c_user_id c = uid)"
  using assms unfolding insert_credential_def Let_def
  by (auto split: if_splits)

lemma register_verify_tables:
  assumes "register_verify vf d s rc = (res, d', s')"
  shows "case res of
           Inr pub \<Rightarrow> \<exists>u c. users d' = users d @ [u] \<and> credentials d' = credentials d @ [c]
                        \<and> c_user_id c = u_id u \<and> up_id pub = u_id u
         | Inl e \<Rightarrow> users d' = users d \<and> credentials d' = credentials d"
proof (cases "\<not> truthy (currentChallenge s) \<or> registrationUser s = None")
  case True
  with assms show ?thesis by (auto simp: register_verify_def Let_def)
next
  case started: False
  let ?args = "\<lparr>rva_response = rc, rva_expectedChallenge = the (currentChallenge s),
                 rva_expectedOrigin = origin, rva_expectedRPID = rpID\<rparr>"
  show ?thesis
  proof (cases "vf ?args")
    case (Inl e)
    with assms started show ?thesis by (auto simp: register_verify_def Let_def)
  next
    case (Inr v)
    show ?thesis
    proof (cases "\<not> rv_verified v \<or> rv_registrationInfo v = None")
      case True
      with assms started Inr show ?thesis by (auto simp: register_verify_def Let_def)
    next
      case verified: False
      obtain ru d1 where iu: "insert_user (p_username (the (registrationUser s)))
                                (p_email (the (registrationUser s))) d = (ru, d1)"
        by (cases "insert_user (p_username (the (registrationUser s)))
                     (p_email (the (registrationUser s))) d") auto
      note t1 = insert_user_tables[OF iu]
      show ?thesis
      proof (cases ru)
        case (Inl e)
        with assms started Inr verified iu show ?thesis
          by (auto simp: register_verify_def Let_def rollback_def)
      next
        case user: (Inr u)
        show ?thesis
        proof (cases rc)
          case None
          with assms started Inr verified iu user show ?thesis
            by (auto simp: register_verify_def Let_def rollback_def)
        next
          case (Some cred)
          let ?info = "the (rv_registrationInfo v)"
          obtain rcr d2 where ic: "insert_credential (u_id u)
                 (bufferToBase64url (ri_credentialID ?info))
                 (bufferToBase64url (ri_credentialPublicKey ?info))
                 (ri_counter ?info)
                 (case rr_transports cred of None \<Rightarrow> [] | Some ts \<Rightarrow> ts) d1 = (rcr, d2)"
            by (cases "insert_credential (u_id u)
                 (bufferToBase64url (ri_credentialID ?info))
                 (bufferToBase64url (ri_credentialPublicKey ?info))
                 (ri_counter ?info)
                 (case rr_transports cred of None \<Rightarrow> [] | Some ts \<Rightarrow> ts) d1") auto
          note t2 = insert_credential_tables[OF ic]
          show ?thesis
          proof (cases rcr)
            case (Inl e)
            with assms started Inr verified iu user Some ic show ?thesis
              by (auto simp: register_verify_def Let_def rollback_def)
          next
            case ok: (Inr x)
            from assms started Inr verified iu user Some ic ok
            have "res = Inr \<lparr>up_id = u_id u, up_username = u_username u, up_email = u_email u\<rparr>"
              and "d' = d2"
              by (auto simp: register_verify_def Let_def)
            with t1 t2 user ok show ?thesis by auto
          qed
        qed
      qed
    qed
  qed
qed

lemma credentials_owned_iff:
  "credentials_owned d \<longleftrightarrow> (\<forall>c \<in> set (credentials d). \<exists>u \<in> set (users d). u_id u = c_user_id c)"
  by (simp add: credentials_owned_def list_all_iff list_ex_iff)

lemma register_verify_keeps_owned:
  assumes "register_verify vf d s rc = (res, d', s')" and "credentials_owned d"
  shows "credentials_owned d'"
proof (cases res)
  case (Inl e)
  with register_verify_tables[OF assms(1)] assms(2) show ?thesis
    by (simp add: credentials_owned_def)
next
  case (Inr pub)
  with register_verify_tables[OF assms(1)]
  obtain u c where "users d' = users d @ [u]" "credentials d' = credentials d @ [c]"
      "c_user_id c = u_id u"
    by auto
  with assms(2) show ?thesis
    by (auto simp: credentials_owned_iff)
qed

lemma register_verify_calls_keep_owned:
  "credentials_owned d \<Longrightarrow> credentials_owned (register_verify_calls calls d)"
proof (induction calls arbitrary: d)
  case Nil
  then show ?case by simp
next
  case (Cons call calls)
  obtain vf s credential where call: "call = (vf, s, credential)"
    by (cases call) auto
  obtain res d' s' where r: "register_verify vf d s credential = (res, d', s')"
    by (cases "register_verify vf d s credential") auto
  from register_verify_keeps_owned[OF r Cons.prems] have "credentials_owned d'" .
  from Cons.IH[OF this] show ?case
    by (simp add: call r)
qed

section \<open>The sample run, evaluated\<close>

lemma ana_credential_id: "bufferToBase64url [1, 2, 3] = ''AQID''"
  by (simp add: bufferToBase64url_def toBase64_def Let_def replaceChar_def removeChar_def
      b64char_def b64chars_def)

lemma ana_public_key: "bufferToBase64url [9, 8, 7, 6] = ''CQgHBg''"
  by (simp add: bufferToBase64url_def toBase64_def Let_def replaceChar_def removeChar_def
      b64char_def b64chars_def)

lemma unbase64_sample:
  "unbase64 (CHR ''C'') = Some 2" "unbase64 (CHR ''Q'') = Some 16"
  "unbase64 (CHR ''g'') = Some 32" "unbase64 (CHR ''H'') = Some 7"
  "unbase64 (CHR ''B'') = Some 1"
  by (simp_all add: unbase64_def b64chars_def upt_rec)

lemma ana_public_key_decoded: "base64urlToBuffer ''CQgHBg'' = [9, 8, 7, 6]"
  by (simp add: base64urlToBuffer_def fromBase64_def Let_def replaceChar_def unbase64_sample
      readSextets_padding)

lemma ana_registers:
  "register_verify verifyRegistrationResponse migrated_db ana_pending_session
     (Some ana_attestation)
   = (Inr \<lparr>up_id = 4, up_username = ''ana'', up_email = ''ana@example.com''\<rparr>,
      registered_db,
      \<lparr>currentChallenge = None, registrationUser = None, userId = Some 4,
       username = Some ''ana''\<rparr>)"
  by (simp add: register_verify_def verifyRegistrationResponse_def migrated_db_def
      ana_pending_session_def ana_attestation_def registered_db_def ana_row_def
      ana_credential_def truthy_def origin_def rpID_def insert_user_def insert_credential_def
      Let_def ana_credential_id ana_public_key)

lemma bob_registers_duplicate:
  "register_verify verifyRegistrationResponse registered_db bob_pending_session
     (Some ana_attestation)
   = (Inl (HttpError ServerError 500 ''Failed to verify registration''),
      registered_db\<lparr>users_id_seq := 6, credentials_id_seq := 3\<rparr>,
      bob_pending_session)"
  by (simp add: register_verify_def verifyRegistrationResponse_def migrated_db_def
      bob_pending_session_def ana_attestation_def registered_db_def ana_row_def
      ana_credential_def truthy_def origin_def rpID_def insert_user_def insert_credential_def
      rollback_def Let_def ana_credential_id ana_public_key)

lemma ana_credential_selected:
  "select_credential_by_id registered_db ''AQID'' = [(ana_credential, ana_row)]"
  by (simp add: select_credential_by_id_def credentials_join_users_def registered_db_def
      migrated_db_def ana_row_def ana_credential_def)

lemma ana_lookup_key: "bufferToBase64url (utf8Bytes ''AQID'') = ''QVFJRA''"
  by (simp add: utf8Bytes_def bufferToBase64url_def toBase64_def Let_def replaceChar_def
      removeChar_def b64char_def b64chars_def)

lemma crafted_lookup_key:
  "bufferToBase64url (utf8Bytes [CHR 0x01, CHR 0x02, CHR 0x03]) = ''AQID''"
  by (simp add: utf8Bytes_def bufferToBase64url_def toBase64_def Let_def replaceChar_def
      removeChar_def b64char_def b64chars_def)

lemma ana_lookup_misses: "select_credential_by_id registered_db ''QVFJRA'' = []"
  by (simp add: select_credential_by_id_def credentials_join_users_def registered_db_def
      migrated_db_def ana_row_def ana_credential_def)

lemma ana_login_not_found:
  "login_verify vf registered_db login_session (Some ana_assertion)
   = (Inl (HttpError NotFoundError 404 ''Credential not found''), registered_db,
      login_session)"
  by (simp add: login_verify_def login_session_def truthy_def Let_def ana_assertion_def
      ana_lookup_key ana_lookup_misses)

lemma crafted_logs_in:
  "login_verify verifyAuthenticationResponse registered_db login_session
     (Some crafted_assertion)
   = (Inr \<lparr>up_id = 4, up_username = ''ana'', up_email = ''ana@example.com''\<rparr>,
      update_counter 6 ''AQID'' registered_db,
      \<lparr>currentChallenge = None, registrationUser = None, userId = Some 4,
       username = Some ''ana''\<rparr>)"
  by (simp add: login_verify_def verifyAuthenticationResponse_def ana_credential_selected
      login_session_def crafted_assertion_def ana_assertion_def crafted_lookup_key
      ana_public_key_decoded truthy_def origin_def rpID_def Let_def ana_credential_def
      ana_row_def)

lemma migrated_owned: "credentials_owned migrated_db"
  by (simp add: credentials_owned_def migrated_db_def)

section \<open>What the verify handlers leave behind\<close>

lemma register_verify_failure_keeps_session:
  "register_verify vf d s rc = (Inl e, d', s') \<Longrightarrow> s' = s"
  unfolding register_verify_def Let_def
  by (auto split: if_splits sum.splits option.splits prod.splits)

lemma register_verify_success_clears:
  "register_verify vf d s rc = (Inr pub, d', s') \<Longrightarrow>
     currentChallenge s' = None \<and> registrationUser s' = None"
  unfolding register_verify_def Let_def
  by (auto split: if_splits sum.splits option.splits prod.splits)

lemma login_verify_failure_keeps_session:
  "login_verify vf d s ac = (Inl e, d', s') \<Longrightarrow> s' = s"
  unfolding login_verify_def Let_def
  by (auto split: if_splits sum.splits option.splits prod.splits list.splits)

lemma login_verify_success_clears:
  "login_verify vf d s ac = (Inr pub, d', s') \<Longrightarrow> currentChallenge s' = None"
  unfolding login_verify_def Let_def
  by (auto split: if_splits sum.splits option.splits prod.splits list.splits)

lemma user_id_after_update:
  "c_user_id (if c_credential_id c = cid then c\<lparr>c_counter := n\<rparr> else c) = c_user_id c"
  by simp

lemma join_after_update:
  "credentials_join_users (update_counter n cid d) =
     map (\<lambda>(c, u). (if c_credential_id c = cid then c\<lparr>c_counter := n\<rparr> else c, u))
         (credentials_join_users d)"
proof -
  have "concat (map (\<lambda>c. map (\<lambda>u. (c, u)) (filter (\<lambda>u. c_user_id c = u_id u) us))
                  (map (\<lambda>c. if c_credential_id c = cid then c\<lparr>c_counter := n\<rparr> else c) cs))
        = map (\<lambda>(c, u). (if c_credential_id c = cid then c\<lparr>c_counter := n\<rparr> else c, u))
            (concat (map (\<lambda>c. map (\<lambda>u. (c, u)) (filter (\<lambda>u. c_user_id c = u_id u) us)) cs))"
    for us cs
    by (induction cs) (simp_all add: user_id_after_update del: if_split)
  then show ?thesis
    by (simp add: credentials_join_users_def update_counter_def)
qed

lemma filter_after_update:
  "filter (\<lambda>(c, u). c_credential_id c = cid)
     (map (\<lambda>(c, u). (if c_credential_id c = cid then c\<lparr>c_counter := n\<rparr> else c, u)) xs)
   = map (\<lambda>(c, u). (c\<lparr>c_counter := n\<rparr>, u)) (filter (\<lambda>(c, u). c_credential_id c = cid) xs)"
  by (induction xs) auto

lemma select_after_update:
  "select_credential_by_id (update_counter n cid d) cid =
     map (\<lambda>(c, u). (c\<lparr>c_counter := n\<rparr>, u)) (select_credential_by_id d cid)"
  unfolding select_credential_by_id_def join_after_update
  by (rule filter_after_update)

lemma selected_owner:
  assumes "select_credential_by_id d cid = (cr, u) # others"
  shows "c_credential_id cr = cid \<and> c_user_id cr = u_id u \<and> cr \<in> set (credentials d)
         \<and> u \<in> set (users d)"
proof -
  have "(cr, u) \<in> set (select_credential_by_id d cid)"
    using assms by simp
  then show ?thesis
    by (auto simp: select_credential_by_id_def credentials_join_users_def)
qed

lemma login_verify_accepts:
  assumes "truthy (currentChallenge s)"
      and "select_credential_by_id d (bufferToBase64url (utf8Bytes (as_rawId a))) = (cr, u) # others"
      and "vf \<lparr>ava_response = a, ava_expectedChallenge = the (currentChallenge s),
               ava_expectedOrigin = origin, ava_expectedRPID = rpID,
               ava_authenticator =
                 \<lparr>ad_credentialID = base64urlToBuffer (c_credential_id cr),
                  ad_credentialPublicKey = base64urlToBuffer (c_public_key cr),
                  ad_counter = c_counter cr\<rparr>\<rparr>
           = Inr \<lparr>av_verified = True, av_authenticationInfo = Some \<lparr>ai_newCounter = n\<rparr>\<rparr>"
  shows "login_verify vf d s (Some a) =
           (Inr \<lparr>up_id = u_id u, up_username = u_username u, up_email = u_email u\<rparr>,
            update_counter n (bufferToBase64url (utf8Bytes (as_rawId a))) d,
            s\<lparr>currentChallenge := None, userId := Some (u_id u),
              username := Some (u_username u)\<rparr>)"
  using assms by (simp add: login_verify_def Let_def)

lemma login_verify_rejects:
  assumes "truthy (currentChallenge s)"
      and "select_credential_by_id d (bufferToBase64url (utf8Bytes (as_rawId a))) = (cr, u) # others"
      and "vf \<lparr>ava_response = a, ava_expectedChallenge = the (currentChallenge s),
               ava_expectedOrigin = origin, ava_expectedRPID = rpID,
               ava_authenticator =
                 \<lparr>ad_credentialID = base64urlToBuffer (c_credential_id cr),
                  ad_credentialPublicKey = base64urlToBuffer (c_public_key cr),
                  ad_counter = c_counter cr\<rparr>\<rparr>
           = Inr \<lparr>av_verified = False, av_authenticationInfo = info\<rparr>"
  shows "login_verify vf d s (Some a) =
           (Inl (HttpError VerificationError 400 ''Verification failed''), d, s)"
  using assms by (simp add: login_verify_def Let_def)

section \<open>Starting an authentication\<close>

lemma filter_unique_key:
  assumes "distinct (map f xs)" and "x \<in> set xs"
  shows "filter (\<lambda>y. P y \<and> f y = f x) xs = (if P x then [x] else [])"
  using assms
proof (induction xs)
  case Nil
  then show ?case by simp
next
  case (Cons y ys)
  show ?case
  proof (cases "y = x")
    case True
    from Cons.prems(1) have "f y \<notin> f ` set ys" by simp
    with True have "\<forall>z \<in> set ys. f z \<noteq> f x" by (metis imageI)
    then have "filter (\<lambda>y. P y \<and> f y = f x) ys = []" by (auto simp: filter_empty_conv)
    with True show ?thesis by simp
  next
    case False
    with Cons.prems have "x \<in> set ys" "f y \<noteq> f x" "distinct (map f ys)" by auto
    with Cons.IH show ?thesis by simp
  qed
qed

lemma rows_of_username:
  "select_credentials_of_username d name =
     concat (map (\<lambda>c. map (\<lambda>u. (c_credential_id c, c_transports c))
                        (filter (\<lambda>u. c_user_id c = u_id u \<and> u_username u = name) (users d)))
                 (credentials d))"
proof -
  have "map (\<lambda>(c, u). (c_credential_id c, c_transports c))
          (filter (\<lambda>(c, u). u_username u = name)
             (concat (map (\<lambda>c. map (\<lambda>u. (c, u)) (filter (\<lambda>u. c_user_id c = u_id u) us)) cs)))
        = concat (map (\<lambda>c. map (\<lambda>u. (c_credential_id c, c_transports c))
                        (filter (\<lambda>u. c_user_id c = u_id u \<and> u_username u = name) us)) cs)"
    for us :: "user_row list" and cs :: "credential_row list"
    by (induction cs) (simp_all add: filter_map comp_def)
  then show ?thesis
    by (simp add: select_credentials_of_username_def credentials_join_users_def)
qed

lemma no_rows_of_username:
  "select_credentials_of_username d name = [] \<longleftrightarrow>
     \<not> (\<exists>c \<in> set (credentials d). \<exists>u \<in> set (users d).
            c_user_id c = u_id u \<and> u_username u = name)"
  unfolding rows_of_username
  by (auto simp: filter_empty_conv)

lemma rows_of_unique_username:
  assumes "distinct (map u_username (users d))" and "u \<in> set (users d)"
      and "u_username u = name"
  shows "select_credentials_of_username d name =
           map (\<lambda>c. (c_credential_id c, c_transports c))
               (filter (\<lambda>c. c_user_id c = u_id u) (credentials d))"
proof -
  have one: "filter (\<lambda>v. c_user_id c = u_id v \<and> u_username v = name) (users d)
             = (if c_user_id c = u_id u then [u] else [])" for c
    using filter_unique_key[OF assms(1) assms(2), of "\<lambda>v. c_user_id c = u_id v"] assms(3)
    by simp
  have "concat (map (\<lambda>c. map (\<lambda>u. (c_credential_id c, c_transports c))
                        (if c_user_id c = u_id u then [u] else [])) cs)
        = map (\<lambda>c. (c_credential_id c, c_transports c))
            (filter (\<lambda>c. c_user_id c = u_id u) cs)" for cs :: "credential_row list"
    by (induction cs) simp_all
  then show ?thesis
    unfolding rows_of_username one by simp
qed

lemma login_start_username:
  assumes "name \<noteq> []"
  shows "login_start gen d s (Some name) =
           (if select_credentials_of_username d name = []
            then (Inl (HttpError NotFoundError 404 ''User not found''), s)
            else case gen \<lparr>aoa_rpID = rpID, aoa_userVerification = ''preferred'',
                           aoa_allowCredentials =
                             Some (map (\<lambda>(cid, ts).
                                     \<lparr>ac_id = base64urlToBuffer cid, ac_type = ''public-key'',
                                      ac_transports = (case ts of None \<Rightarrow> [] | Some t \<Rightarrow> t)\<rparr>)
                                   (select_credentials_of_username d name))\<rparr> of
                   Inl e \<Rightarrow> (Inl (HttpError ServerError 500 ''Failed to start authentication''), s)
                 | Inr options \<Rightarrow>
                     (Inr options, s\<lparr>currentChallenge := Some (challenge options)\<rparr>))"
  using assms by (simp add: login_start_def truthy_def Let_def)

lemma unbase64_sample2:
  "unbase64 (CHR ''A'') = Some 0" "unbase64 (CHR ''I'') = Some 8" "unbase64 (CHR ''D'') = Some 3"
  by (simp_all add: unbase64_def b64chars_def upt_rec)

lemma ana_credential_id_decoded: "base64urlToBuffer ''AQID'' = [1, 2, 3]"
  by (simp add: base64urlToBuffer_def fromBase64_def Let_def replaceChar_def unbase64_sample
      unbase64_sample2)

lemma registered_usernames: "distinct (map u_username (users registered_db))"
  by (simp add: registered_db_def migrated_db_def ana_row_def)

section \<open>Replaying an assertion\<close>

lemma update_counter_twice:
  "update_counter n cid (update_counter n cid d) = update_counter n cid d"
proof -
  have "map (\<lambda>c. if c_credential_id c = cid then c\<lparr>c_counter := n\<rparr> else c)
          (map (\<lambda>c. if c_credential_id c = cid then c\<lparr>c_counter := n\<rparr> else c) cs)
        = map (\<lambda>c. if c_credential_id c = cid then c\<lparr>c_counter := n\<rparr> else c) cs"
    for cs :: "credential_row list"
    by (induction cs) simp_all
  then show ?thesis by (simp add: update_counter_def)
qed

lemma login_verify_in_three_steps:
  "run_two vf [First, First, First] (d, Received s credential, b) =
     (case login_verify vf d s credential of (res, d', s') \<Rightarrow> (d', Responded res s', b))"
  unfolding login_verify_def Let_def
  by (auto split: option.splits list.splits sum.splits)

lemma login_verify_in_three_steps_second:
  "run_two vf [Second, Second, Second] (d, a, Received s credential) =
     (case login_verify vf d s credential of (res, d', s') \<Rightarrow> (d', a, Responded res s'))"
  unfolding login_verify_def Let_def
  by (auto split: option.splits list.splits sum.splits)

lemma run_two_append: "run_two vf (xs @ ys) st = run_two vf ys (run_two vf xs st)"
proof (induction xs arbitrary: st)
  case Nil
  show ?case by simp
next
  case (Cons t xs)
  obtain d a b where st: "st = (d, a, b)" by (cases st) auto
  show ?case
    unfolding st
    by (cases t) (auto simp: Cons.IH split: prod.splits)
qed

lemma run_in_sequence:
  "run_two vf [First, First, First, Second, Second, Second]
     (d, Received s1 c1, Received s2 c2) =
   (case login_verify vf d s1 c1 of (res1, d1, s1') \<Rightarrow>
      case login_verify vf d1 s2 c2 of (res2, d2, s2') \<Rightarrow>
        (d2, Responded res1 s1', Responded res2 s2'))"
proof -
  obtain res1 d1 s1' where f: "login_verify vf d s1 c1 = (res1, d1, s1')"
    by (cases "login_verify vf d s1 c1") auto
  obtain res2 d2 s2' where g: "login_verify vf d1 s2 c2 = (res2, d2, s2')"
    by (cases "login_verify vf d1 s2 c2") auto
  have split: "run_two vf [First, First, First, Second, Second, Second] st
        = run_two vf [Second, Second, Second] (run_two vf [First, First, First] st)" for st
    using run_two_append[of vf "[First, First, First]" "[Second, Second, Second]" st]
    by (simp only: append_Cons append_Nil)
  have 1: "run_two vf [First, First, First] (d, Received s1 c1, Received s2 c2)
           = (d1, Responded res1 s1', Received s2 c2)"
    by (simp only: login_verify_in_three_steps f prod.case)
  have 2: "run_two vf [Second, Second, Second] (d1, Responded res1 s1', Received s2 c2)
           = (d2, Responded res1 s1', Responded res2 s2')"
    by (simp only: login_verify_in_three_steps_second g prod.case)
  show ?thesis
    by (simp only: split 1 2 f g prod.case)
qed

lemma run_interleaved:
  assumes "login_verify vf d s (Some a) = (Inr pub, d', s')"
  shows "run_two vf [First, Second, First, Second, First, Second]
           (d, Received s (Some a), Received s (Some a))
         = (d', Responded (Inr pub) s', Responded (Inr pub) s')"
  using assms unfolding login_verify_def Let_def
  by (auto simp: update_counter_twice split: if_splits list.splits sum.splits option.splits)

lemma crafted_replays:
  "login_verify verifyAuthenticationResponse (update_counter 6 ''AQID'' registered_db)
     login_session (Some crafted_assertion)
   = (Inl (HttpError VerificationError 400 ''Verification failed''),
      update_counter 6 ''AQID'' registered_db, login_session)"
proof -
  have t: "truthy (currentChallenge login_session)"
    by (simp add: truthy_def login_session_def)
  have rows: "select_credential_by_id (update_counter 6 ''AQID'' registered_db)
                (bufferToBase64url (utf8Bytes (as_rawId crafted_assertion)))
              = (ana_credential\<lparr>c_counter := 6\<rparr>, ana_row) # []"
    by (simp add: crafted_assertion_def crafted_lookup_key select_after_update
        ana_credential_selected)
  show ?thesis
    by (rule login_verify_rejects[where vf = verifyAuthenticationResponse, OF t rows])
       (simp add: verifyAuthenticationResponse_def Let_def crafted_assertion_def
          ana_assertion_def)
qed

section \<open>The identifier looked up at authentication\<close>

lemma length_sextetsOf: "length (sextetsOf buf) = (4 * length buf + 2) div 3"
  by (induction buf rule: sextetsOf.induct) (simp_all add: Let_def)

lemma url_text_of_sextets:
  assumes "\<forall>s \<in> set xs. s < 64"
  shows "length (removeChar (CHR ''='') (replaceChar (CHR ''/'') (CHR ''_'')
           (replaceChar (CHR ''+'') (CHR ''-'') (map b64char xs @ replicate k (CHR ''='')))))
         = length xs"
  using assms
proof (induction xs)
  case Nil
  show ?case by (simp add: replaceChar_def removeChar_def)
next
  case (Cons x xs)
  then show ?case
    using b64char_not_special[of x]
    by (auto simp: replaceChar_def removeChar_def)
qed

lemma length_bufferToBase64url:
  "length (bufferToBase64url buf) = (4 * length buf + 2) div 3"
proof -
  have lt: "\<forall>s \<in> set (sextetsOf buf). s < 64"
    using sextetsOf_lt by blast
  show ?thesis
    unfolding bufferToBase64url_def toBase64_def
    by (simp only: url_text_of_sextets[OF lt] length_sextetsOf)
qed

lemma lookup_key_is_not_stored_id:
  assumes "raw \<noteq> []"
  shows "bufferToBase64url (utf8Bytes (bufferToBase64url raw)) \<noteq> bufferToBase64url raw"
proof -
  have "0 < length raw" using assms by simp
  then have "0 < (4 * length raw + 2) div 3" by arith
  then have pos: "0 < length (bufferToBase64url raw)"
    by (simp only: length_bufferToBase64url)
  have "length (bufferToBase64url (utf8Bytes (bufferToBase64url raw)))
        = (4 * length (bufferToBase64url raw) + 2) div 3"
    by (simp add: length_bufferToBase64url utf8Bytes_def)
  with pos have "length (bufferToBase64url raw)
                 < length (bufferToBase64url (utf8Bytes (bufferToBase64url raw)))"
    by arith
  then show ?thesis by auto
qed

section \<open>The checks behind a rejection\<close>




section \<open>The claims\<close>

text \<open>
  Claim C1. For every authentication verify call with an outstanding challenge and a known
  credential, a reported counter not above the stored one makes the call fail with
  VerificationError and leaves the stored counter as it was. The code departs from this:
  line 301 encodes the text of \<open>rawId\<close> a second time, so the credential that ana
  registered is not found when her browser presents it. The replay with the stale counter 5
  is answered 404 NotFoundError, whatever the library would say; the store is unchanged.
\<close>

theorem stale_replay_not_found:
  "register_verify verifyRegistrationResponse migrated_db ana_pending_session
     (Some ana_attestation)
   = (Inr \<lparr>up_id = 4, up_username = ''ana'', up_email = ''ana@example.com''\<rparr>,
      registered_db,
      \<lparr>currentChallenge = None, registrationUser = None, userId = Some 4,
       username = Some ''ana''\<rparr>)
   \<and> as_rawId (ana_assertion\<lparr>as_counter := 5\<rparr>)
       = bufferToBase64url (rr_credentialID ana_attestation)
   \<and> as_counter (ana_assertion\<lparr>as_counter := 5\<rparr>) \<le> c_counter ana_credential
   \<and> login_verify vf registered_db login_session (Some (ana_assertion\<lparr>as_counter := 5\<rparr>))
       = (Inl (HttpError NotFoundError 404 ''Credential not found''), registered_db,
          login_session)"
proof -
  have 1: "as_rawId (ana_assertion\<lparr>as_counter := 5\<rparr>)
           = bufferToBase64url (rr_credentialID ana_attestation)"
    by (simp add: ana_assertion_def ana_attestation_def ana_credential_id)
  have 2: "as_counter (ana_assertion\<lparr>as_counter := 5\<rparr>) \<le> c_counter ana_credential"
    by (simp add: ana_credential_def)
  have 3: "login_verify vf registered_db login_session
             (Some (ana_assertion\<lparr>as_counter := 5\<rparr>))
           = (Inl (HttpError NotFoundError 404 ''Credential not found''), registered_db,
              login_session)"
    by (simp add: login_verify_def login_session_def truthy_def Let_def ana_assertion_def
        ana_lookup_key ana_lookup_misses)
  from ana_registers 1 2 3 show ?thesis by blast
qed

theorem stale_replay_not_found_witness:
  "as_rawId (ana_assertion\<lparr>as_counter := 5\<rparr>)
     = bufferToBase64url (rr_credentialID ana_attestation)
   \<and> as_counter (ana_assertion\<lparr>as_counter := 5\<rparr>) \<le> c_counter ana_credential
   \<and> login_verify verifyAuthenticationResponse registered_db login_session
         (Some (ana_assertion\<lparr>as_counter := 5\<rparr>))
       = (Inl (HttpError NotFoundError 404 ''Credential not found''), registered_db,
          login_session)"
  using stale_replay_not_found[where vf = verifyAuthenticationResponse] by blast

text \<open>
  Claim C2. Every registration verify call either creates both the User row and its
  Credential row, the credential naming the new user, or creates neither: on any failure
  the two tables are as they were before the call. So in every state of the store reached
  through registration verify calls, from a state where every credential has its user, no
  Credential row references a User that does not exist.
\<close>

theorem register_verify_atomic:
  "(case register_verify vf d s rc of
      (Inr pub, d', s') \<Rightarrow>
        (\<exists>u c. users d' = users d @ [u] \<and> credentials d' = credentials d @ [c]
               \<and> c_user_id c = u_id u \<and> up_id pub = u_id u)
    | (Inl e, d', s') \<Rightarrow> users d' = users d \<and> credentials d' = credentials d)
   \<and> (credentials_owned d0 \<longrightarrow> credentials_owned (register_verify_calls calls d0))"
proof
  obtain res d' s' where r: "register_verify vf d s rc = (res, d', s')"
    by (cases "register_verify vf d s rc") auto
  from register_verify_tables[OF r] r
  show "case register_verify vf d s rc of
      (Inr pub, d', s') \<Rightarrow>
        (\<exists>u c. users d' = users d @ [u] \<and> credentials d' = credentials d @ [c]
               \<and> c_user_id c = u_id u \<and> up_id pub = u_id u)
    | (Inl e, d', s') \<Rightarrow> users d' = users d \<and> credentials d' = credentials d"
    by (cases res) auto
next
  show "credentials_owned d0 \<longrightarrow> credentials_owned (register_verify_calls calls d0)"
    using register_verify_calls_keep_owned by blast
qed

theorem register_verify_atomic_witness:
  "credentials_owned migrated_db
   \<and> register_verify verifyRegistrationResponse migrated_db ana_pending_session
        (Some ana_attestation)
      = (Inr \<lparr>up_id = 4, up_username = ''ana'', up_email = ''ana@example.com''\<rparr>,
         registered_db,
         \<lparr>currentChallenge = None, registrationUser = None, userId = Some 4,
          username = Some ''ana''\<rparr>)
   \<and> (\<exists>u c. users registered_db = users migrated_db @ [u]
            \<and> credentials registered_db = credentials migrated_db @ [c]
            \<and> c_user_id c = u_id u \<and> 4 = u_id u)
   \<and> register_verify verifyRegistrationResponse registered_db bob_pending_session
        (Some ana_attestation)
      = (Inl (HttpError ServerError 500 ''Failed to verify registration''),
         registered_db\<lparr>users_id_seq := 6, credentials_id_seq := 3\<rparr>,
         bob_pending_session)
   \<and> register_verify_calls
        [(verifyRegistrationResponse, ana_pending_session, Some ana_attestation),
         (verifyRegistrationResponse, bob_pending_session, Some ana_attestation)]
        migrated_db
      = registered_db\<lparr>users_id_seq := 6, credentials_id_seq := 3\<rparr>
   \<and> credentials_owned (registered_db\<lparr>users_id_seq := 6, credentials_id_seq := 3\<rparr>)"
proof -
  have 1: "credentials_owned migrated_db"
    by (rule migrated_owned)
  have 2: "register_verify verifyRegistrationResponse registered_db bob_pending_session
             (Some ana_attestation)
           = (Inl (HttpError ServerError 500 ''Failed to verify registration''),
              registered_db\<lparr>users_id_seq := 6, credentials_id_seq := 3\<rparr>,
              bob_pending_session)"
    by (simp add: bob_registers_duplicate)
  have 3: "register_verify_calls
             [(verifyRegistrationResponse, ana_pending_session, Some ana_attestation),
              (verifyRegistrationResponse, bob_pending_session, Some ana_attestation)]
             migrated_db
           = registered_db\<lparr>users_id_seq := 6, credentials_id_seq := 3\<rparr>"
    by (simp add: ana_registers 2)
  note inst = register_verify_atomic[where vf = verifyRegistrationResponse
      and d = migrated_db and s = ana_pending_session and rc = "Some ana_attestation"
      and ?d0.0 = migrated_db
      and calls = "[(verifyRegistrationResponse, ana_pending_session, Some ana_attestation),
                    (verifyRegistrationResponse, bob_pending_session, Some ana_attestation)]"]
  from inst 1 have 4: "credentials_owned
                         (registered_db\<lparr>users_id_seq := 6, credentials_id_seq := 3\<rparr>)"
    by (simp only: 3)
  from inst have 5: "\<exists>u c. users registered_db = users migrated_db @ [u]
            \<and> credentials registered_db = credentials migrated_db @ [c]
            \<and> c_user_id c = u_id u \<and> 4 = u_id u"
    by (simp add: ana_registers)
  from 1 2 3 4 5 ana_registers show ?thesis by blast
qed

text \<open>
  Claim C3. For every session with no outstanding challenge, any verify call, registration
  or authentication, fails with StateError, and the store and the session (so also its
  authenticated fields) are unchanged.
\<close>

theorem verify_without_challenge:
  assumes "currentChallenge s = None"
  shows "register_verify vr d s rc =
           (Inl (HttpError StateError 400 ''No registration in progress''), d, s)
       \<and> login_verify va d s ac =
           (Inl (HttpError StateError 400 ''No authentication in progress''), d, s)"
  using assms by (simp add: register_verify_def login_verify_def truthy_def)

theorem verify_without_challenge_witness:
  "currentChallenge empty_session = None
   \<and> register_verify verifyRegistrationResponse registered_db empty_session
         (Some ana_attestation)
       = (Inl (HttpError StateError 400 ''No registration in progress''), registered_db,
          empty_session)
   \<and> login_verify verifyAuthenticationResponse registered_db empty_session
         (Some ana_assertion)
       = (Inl (HttpError StateError 400 ''No authentication in progress''), registered_db,
          empty_session)"
proof -
  have h: "currentChallenge empty_session = None"
    by (simp add: empty_session_def)
  show ?thesis
    by (rule conjI[OF h verify_without_challenge[OF h]])
qed

text \<open>
  Claim C4, as stated, fails: a verify call that runs with an outstanding challenge and is
  rejected leaves the Challenge Session fields in the session. First an authentication
  whose assertion is signed with a key other than the stored one (its \<open>rawId\<close> written
  by hand so that the row is found), then an authentication with an unknown credential,
  then a registration whose response names another origin.
\<close>

theorem rejected_verify_keeps_challenge:
  "currentChallenge login_session = Some ''c2''
   \<and> login_verify verifyAuthenticationResponse registered_db login_session
         (Some (crafted_assertion\<lparr>as_signedBy := [0]\<rparr>))
       = (Inl (HttpError VerificationError 400 ''Verification failed''), registered_db,
          login_session)
   \<and> login_verify verifyAuthenticationResponse migrated_db login_session (Some ana_assertion)
       = (Inl (HttpError NotFoundError 404 ''Credential not found''), migrated_db,
          login_session)
   \<and> currentChallenge ana_pending_session = Some ''c1''
   \<and> register_verify verifyRegistrationResponse migrated_db ana_pending_session
         (Some (ana_attestation\<lparr>rr_origin := ''http://evil.example''\<rparr>))
       = (Inl (HttpError VerificationError 400 ''Verification failed''), migrated_db,
          ana_pending_session)"
proof -
  have 1: "currentChallenge login_session = Some ''c2''"
    by (simp add: login_session_def)
  have 2: "login_verify verifyAuthenticationResponse registered_db login_session
             (Some (crafted_assertion\<lparr>as_signedBy := [0]\<rparr>))
           = (Inl (HttpError VerificationError 400 ''Verification failed''), registered_db,
              login_session)"
    by (simp add: login_verify_def verifyAuthenticationResponse_def ana_credential_selected
        login_session_def crafted_assertion_def ana_assertion_def crafted_lookup_key
        ana_public_key_decoded truthy_def origin_def rpID_def Let_def ana_credential_def
        ana_row_def)
  have 3: "login_verify verifyAuthenticationResponse migrated_db login_session
             (Some ana_assertion)
           = (Inl (HttpError NotFoundError 404 ''Credential not found''), migrated_db,
              login_session)"
    by (simp add: login_verify_def login_session_def truthy_def Let_def
        select_credential_by_id_def credentials_join_users_def migrated_db_def)
  have 4: "currentChallenge ana_pending_session = Some ''c1''"
    by (simp add: ana_pending_session_def)
  have 5: "register_verify verifyRegistrationResponse migrated_db ana_pending_session
             (Some (ana_attestation\<lparr>rr_origin := ''http://evil.example''\<rparr>))
           = (Inl (HttpError VerificationError 400 ''Verification failed''), migrated_db,
              ana_pending_session)"
    by (simp add: register_verify_def verifyRegistrationResponse_def ana_pending_session_def
        ana_attestation_def truthy_def origin_def rpID_def Let_def)
  from 1 2 3 4 5 show ?thesis by blast
qed

text \<open>
  Claim C4, amended. A verify call that succeeds clears the Challenge Session fields:
  \<open>currentChallenge\<close>, and for registration \<open>registrationUser\<close> too. A verify call that
  fails, for whatever reason, leaves the whole session as it was.
\<close>

theorem verify_clears_challenge_on_success:
  "(\<forall>pub d' s'. register_verify vr d s rc = (Inr pub, d', s') \<longrightarrow>
       currentChallenge s' = None \<and> registrationUser s' = None)
   \<and> (\<forall>e d' s'. register_verify vr d s rc = (Inl e, d', s') \<longrightarrow> s' = s)
   \<and> (\<forall>pub d' s'. login_verify va d s ac = (Inr pub, d', s') \<longrightarrow> currentChallenge s' = None)
   \<and> (\<forall>e d' s'. login_verify va d s ac = (Inl e, d', s') \<longrightarrow> s' = s)"
proof (intro conjI allI impI)
  fix pub d' s'
  assume "register_verify vr d s rc = (Inr pub, d', s')"
  then show "currentChallenge s' = None" and "registrationUser s' = None"
    using register_verify_success_clears by blast+
next
  fix e d' s'
  assume "register_verify vr d s rc = (Inl e, d', s')"
  then show "s' = s" by (rule register_verify_failure_keeps_session)
next
  fix pub d' s'
  assume "login_verify va d s ac = (Inr pub, d', s')"
  then show "currentChallenge s' = None" by (rule login_verify_success_clears)
next
  fix e d' s'
  assume "login_verify va d s ac = (Inl e, d', s')"
  then show "s' = s" by (rule login_verify_failure_keeps_session)
qed

theorem verify_clears_challenge_on_success_witness:
  "fst (register_verify verifyRegistrationResponse migrated_db ana_pending_session
          (Some ana_attestation))
     = Inr \<lparr>up_id = 4, up_username = ''ana'', up_email = ''ana@example.com''\<rparr>
   \<and> currentChallenge
         (snd (snd (register_verify verifyRegistrationResponse migrated_db
                      ana_pending_session (Some ana_attestation)))) = None
   \<and> registrationUser
         (snd (snd (register_verify verifyRegistrationResponse migrated_db
                      ana_pending_session (Some ana_attestation)))) = None
   \<and> fst (login_verify verifyAuthenticationResponse migrated_db ana_pending_session
             (Some ana_assertion))
       = Inl (HttpError NotFoundError 404 ''Credential not found'')
   \<and> snd (snd (login_verify verifyAuthenticationResponse migrated_db ana_pending_session
                  (Some ana_assertion)))
       = ana_pending_session"
proof -
  obtain d1 s1 where r: "register_verify verifyRegistrationResponse migrated_db
                           ana_pending_session (Some ana_attestation)
        = (Inr \<lparr>up_id = 4, up_username = ''ana'', up_email = ''ana@example.com''\<rparr>, d1, s1)"
    using ana_registers by blast
  have "fst (login_verify verifyAuthenticationResponse migrated_db ana_pending_session
               (Some ana_assertion))
        = Inl (HttpError NotFoundError 404 ''Credential not found'')"
    by (simp add: login_verify_def ana_pending_session_def truthy_def Let_def
        select_credential_by_id_def credentials_join_users_def migrated_db_def)
  then obtain d2 s2 where l: "login_verify verifyAuthenticationResponse migrated_db
                                ana_pending_session (Some ana_assertion)
        = (Inl (HttpError NotFoundError 404 ''Credential not found''), d2, s2)"
    by (cases "login_verify verifyAuthenticationResponse migrated_db ana_pending_session
                 (Some ana_assertion)") auto
  note inst = verify_clears_challenge_on_success[of verifyRegistrationResponse migrated_db
      ana_pending_session "Some ana_attestation" verifyAuthenticationResponse
      "Some ana_assertion"]
  from inst r have "currentChallenge s1 = None \<and> registrationUser s1 = None"
    by blast
  moreover from inst l have "s2 = ana_pending_session"
    by blast
  ultimately show ?thesis
    using r l by simp
qed

text \<open>
  Claim C5. An authentication verify call with an outstanding challenge, a known
  credential, a valid signature over the expected challenge, origin and relying party, and
  a reported counter above the stored one succeeds. The code departs from this, by the
  same line 301: ana's browser presents the credential she registered, signed with her key
  over the outstanding challenge and with counter 6 above the stored 5, and the call is
  answered 404 NotFoundError; the counter stays 5 and the session is not authenticated.
\<close>

theorem registered_login_not_found:
  "register_verify verifyRegistrationResponse migrated_db ana_pending_session
     (Some ana_attestation)
   = (Inr \<lparr>up_id = 4, up_username = ''ana'', up_email = ''ana@example.com''\<rparr>,
      registered_db,
      \<lparr>currentChallenge = None, registrationUser = None, userId = Some 4,
       username = Some ''ana''\<rparr>)
   \<and> as_rawId ana_assertion = bufferToBase64url (rr_credentialID ana_attestation)
   \<and> currentChallenge login_session = Some (as_challenge ana_assertion)
   \<and> as_origin ana_assertion = origin \<and> as_rpId ana_assertion = rpID
   \<and> as_signedBy ana_assertion = rr_credentialPublicKey ana_attestation
   \<and> c_counter ana_credential < as_counter ana_assertion
   \<and> login_verify vf registered_db login_session (Some ana_assertion)
       = (Inl (HttpError NotFoundError 404 ''Credential not found''), registered_db,
          login_session)
   \<and> credentials registered_db = [ana_credential]
   \<and> userId login_session = None"
proof -
  have 1: "as_rawId ana_assertion = bufferToBase64url (rr_credentialID ana_attestation)"
    by (simp add: ana_assertion_def ana_attestation_def ana_credential_id)
  have 2: "currentChallenge login_session = Some (as_challenge ana_assertion)"
    by (simp add: login_session_def ana_assertion_def)
  have 3: "as_origin ana_assertion = origin \<and> as_rpId ana_assertion = rpID"
    by (simp add: ana_assertion_def origin_def rpID_def)
  have 4: "as_signedBy ana_assertion = rr_credentialPublicKey ana_attestation"
    by (simp add: ana_assertion_def ana_attestation_def)
  have 5: "c_counter ana_credential < as_counter ana_assertion"
    by (simp add: ana_assertion_def ana_credential_def)
  have 6: "credentials registered_db = [ana_credential]"
    by (simp add: registered_db_def)
  have 7: "userId login_session = None"
    by (simp add: login_session_def)
  from ana_registers 1 2 3 4 5 6 7 ana_login_not_found[of vf] show ?thesis by blast
qed

theorem registered_login_not_found_witness:
  "as_rawId ana_assertion = bufferToBase64url (rr_credentialID ana_attestation)
   \<and> c_counter ana_credential < as_counter ana_assertion
   \<and> login_verify verifyAuthenticationResponse registered_db login_session
         (Some ana_assertion)
       = (Inl (HttpError NotFoundError 404 ''Credential not found''), registered_db,
          login_session)
   \<and> credentials registered_db = [ana_credential]"
  using registered_login_not_found[where vf = verifyAuthenticationResponse] by blast

text \<open>
  Claim C6, as stated, fails: the user "james" of the migrated store exists and owns no
  credential, and an authentication start for "james" fails with NotFoundError.
\<close>

theorem login_start_existing_user_not_found:
  "\<lparr>u_id = 1, u_username = ''james'', u_email = ''james@bluebottle.com''\<rparr>
     \<in> set (users migrated_db)
   \<and> fst (login_start (generateAuthenticationOptions ''c2'') migrated_db empty_session
             (Some ''james''))
       = Inl (HttpError NotFoundError 404 ''User not found'')"
  by (simp add: login_start_def truthy_def Let_def select_credentials_of_username_def
      credentials_join_users_def migrated_db_def)

text \<open>
  Claim C6, amended. An authentication start that supplies a non-empty username fails
  with NotFoundError if and only if no credential is owned by a user of that name; that
  is so when no such user exists, and also when the user exists and owns no credential.
  When a user of that name owns a credential (usernames being unique), the ceremony options
  returned are the ones the library generates for an allow-list of exactly that user's
  credentials: the decoded identifier and the transport hints of each, in table order.
\<close>

theorem login_start_by_username:
  assumes "name \<noteq> []"
  shows "((\<exists>e. fst (login_start gen d s (Some name)) = Inl e \<and> kind e = NotFoundError)
          \<longleftrightarrow> \<not> (\<exists>c \<in> set (credentials d). \<exists>u \<in> set (users d).
                     c_user_id c = u_id u \<and> u_username u = name))
       \<and> (\<forall>u options s'.
             distinct (map u_username (users d)) \<and> u \<in> set (users d) \<and> u_username u = name
             \<and> login_start gen d s (Some name) = (Inr options, s')
             \<longrightarrow> gen \<lparr>aoa_rpID = rpID, aoa_userVerification = ''preferred'',
                      aoa_allowCredentials =
                        Some (map (\<lambda>c. \<lparr>ac_id = base64urlToBuffer (c_credential_id c),
                                        ac_type = ''public-key'',
                                        ac_transports =
                                          (case c_transports c of None \<Rightarrow> [] | Some t \<Rightarrow> t)\<rparr>)
                                  (filter (\<lambda>c. c_user_id c = u_id u) (credentials d)))\<rparr>
                 = Inr options)"
proof (intro conjI allI impI)
  show "(\<exists>e. fst (login_start gen d s (Some name)) = Inl e \<and> kind e = NotFoundError)
          \<longleftrightarrow> \<not> (\<exists>c \<in> set (credentials d). \<exists>u \<in> set (users d).
                     c_user_id c = u_id u \<and> u_username u = name)"
    unfolding no_rows_of_username[symmetric] login_start_username[OF assms]
    by (auto split: sum.splits)
next
  fix u options s'
  assume h: "distinct (map u_username (users d)) \<and> u \<in> set (users d) \<and> u_username u = name
             \<and> login_start gen d s (Some name) = (Inr options, s')"
  then have rows: "select_credentials_of_username d name =
           map (\<lambda>c. (c_credential_id c, c_transports c))
               (filter (\<lambda>c. c_user_id c = u_id u) (credentials d))"
    using rows_of_unique_username by blast
  from h have "login_start gen d s (Some name) = (Inr options, s')" by simp
  then show "gen \<lparr>aoa_rpID = rpID, aoa_userVerification = ''preferred'',
                      aoa_allowCredentials =
                        Some (map (\<lambda>c. \<lparr>ac_id = base64urlToBuffer (c_credential_id c),
                                        ac_type = ''public-key'',
                                        ac_transports =
                                          (case c_transports c of None \<Rightarrow> [] | Some t \<Rightarrow> t)\<rparr>)
                                  (filter (\<lambda>c. c_user_id c = u_id u) (credentials d)))\<rparr>
                 = Inr options"
    unfolding login_start_username[OF assms] rows
    by (auto simp: comp_def split: if_splits sum.splits)
qed

theorem login_start_by_username_witness:
  "''ana'' \<noteq> []
   \<and> distinct (map u_username (users registered_db))
   \<and> ana_row \<in> set (users registered_db) \<and> u_username ana_row = ''ana''
   \<and> login_start (generateAuthenticationOptions ''c2'') registered_db empty_session
        (Some ''ana'')
      = (Inr \<lparr>challenge = ''c2'',
               params = \<lparr>aoa_rpID = rpID, aoa_userVerification = ''preferred'',
                         aoa_allowCredentials =
                           Some [\<lparr>ac_id = [1, 2, 3], ac_type = ''public-key'',
                                  ac_transports = [''internal'']\<rparr>]\<rparr>\<rparr>,
         empty_session\<lparr>currentChallenge := Some ''c2''\<rparr>)
   \<and> generateAuthenticationOptions ''c2''
        \<lparr>aoa_rpID = rpID, aoa_userVerification = ''preferred'',
         aoa_allowCredentials =
           Some [\<lparr>ac_id = base64urlToBuffer ''AQID'', ac_type = ''public-key'',
                  ac_transports = [''internal'']\<rparr>]\<rparr>
      = Inr \<lparr>challenge = ''c2'',
              params = \<lparr>aoa_rpID = rpID, aoa_userVerification = ''preferred'',
                        aoa_allowCredentials =
                          Some [\<lparr>ac_id = [1, 2, 3], ac_type = ''public-key'',
                                 ac_transports = [''internal'']\<rparr>]\<rparr>\<rparr>"
proof -
  have 1: "''ana'' \<noteq> []" by simp
  have 2: "distinct (map u_username (users registered_db))"
    by (rule registered_usernames)
  have 3: "ana_row \<in> set (users registered_db)"
    by (simp add: registered_db_def)
  have 4: "u_username ana_row = ''ana''"
    by (simp add: ana_row_def)
  have rows: "select_credentials_of_username registered_db ''ana''
              = [(''AQID'', Some [''internal''])]"
    by (simp add: select_credentials_of_username_def credentials_join_users_def
        registered_db_def migrated_db_def ana_row_def ana_credential_def)
  have 5: "login_start (generateAuthenticationOptions ''c2'') registered_db empty_session
             (Some ''ana'')
      = (Inr \<lparr>challenge = ''c2'',
               params = \<lparr>aoa_rpID = rpID, aoa_userVerification = ''preferred'',
                         aoa_allowCredentials =
                           Some [\<lparr>ac_id = [1, 2, 3], ac_type = ''public-key'',
                                  ac_transports = [''internal'']\<rparr>]\<rparr>\<rparr>,
         empty_session\<lparr>currentChallenge := Some ''c2''\<rparr>)"
    by (simp add: login_start_username[OF 1] rows generateAuthenticationOptions_def
        ana_credential_id_decoded)
  have own: "filter (\<lambda>c. c_user_id c = u_id ana_row) (credentials registered_db)
             = [ana_credential]"
    by (simp add: registered_db_def ana_row_def ana_credential_def)
  from login_start_by_username[OF 1, of "generateAuthenticationOptions ''c2''" registered_db
      empty_session] 2 3 4 5
  have "generateAuthenticationOptions ''c2''
        \<lparr>aoa_rpID = rpID, aoa_userVerification = ''preferred'',
         aoa_allowCredentials =
           Some (map (\<lambda>c. \<lparr>ac_id = base64urlToBuffer (c_credential_id c),
                           ac_type = ''public-key'',
                           ac_transports = (case c_transports c of None \<Rightarrow> [] | Some t \<Rightarrow> t)\<rparr>)
                     (filter (\<lambda>c. c_user_id c = u_id ana_row) (credentials registered_db)))\<rparr>
      = Inr \<lparr>challenge = ''c2'',
              params = \<lparr>aoa_rpID = rpID, aoa_userVerification = ''preferred'',
                        aoa_allowCredentials =
                          Some [\<lparr>ac_id = [1, 2, 3], ac_type = ''public-key'',
                                 ac_transports = [''internal'']\<rparr>]\<rparr>\<rparr>"
    by blast
  then have 6: "generateAuthenticationOptions ''c2''
        \<lparr>aoa_rpID = rpID, aoa_userVerification = ''preferred'',
         aoa_allowCredentials =
           Some [\<lparr>ac_id = base64urlToBuffer ''AQID'', ac_type = ''public-key'',
                  ac_transports = [''internal'']\<rparr>]\<rparr>
      = Inr \<lparr>challenge = ''c2'',
              params = \<lparr>aoa_rpID = rpID, aoa_userVerification = ''preferred'',
                        aoa_allowCredentials =
                          Some [\<lparr>ac_id = [1, 2, 3], ac_type = ''public-key'',
                                 ac_transports = [''internal'']\<rparr>]\<rparr>\<rparr>"
    by (simp add: own ana_credential_def)
  from 1 2 3 4 5 6 show ?thesis by blast
qed

text \<open>
  Claim C7. In every session, a second start call made before a verify overwrites the
  stored challenge: a registration start with a new username and email, and an
  authentication start, each return their options and leave the session holding their own
  challenge, and a verify, registration or authentication, whose response was made for the
  first start's challenge no longer succeeds. The library hands out the second challenge,
  which is fresh, so not the first one; its verification is taken as the specification
  describes it.
\<close>

theorem second_start_overwrites:
  assumes first: "currentChallenge s1 = Some c1"
      and fresh: "c2 \<noteq> c1"
      and reg_lib: "\<And>args. \<exists>ro. g args = Inr ro \<and> challenge ro = c2"
      and auth_lib: "\<And>args. \<exists>ao. g' args = Inr ao \<and> challenge ao = c2"
      and body: "truthy (rsb_username rb)" "truthy (rsb_email rb)"
      and no_conflict:
        "select_existing_user d (the (rsb_username rb)) (the (rsb_email rb)) = []"
      and has_rows: "truthy un \<longrightarrow> select_credentials_of_username d (the un) \<noteq> []"
  shows "(case register_start g newUserId d s1 rb of
            (res, s2) \<Rightarrow>
              (\<exists>ro. res = Inr ro \<and> challenge ro = c2)
              \<and> currentChallenge s2 = Some c2
              \<and> (\<forall>d' r. rr_challenge r = c1 \<longrightarrow>
                    isl (fst (register_verify verifyRegistrationResponse d' s2 (Some r))))
              \<and> (\<forall>d' a. as_challenge a = c1 \<longrightarrow>
                    isl (fst (login_verify verifyAuthenticationResponse d' s2 (Some a)))))
       \<and> (case login_start g' d s1 un of
            (res, s2) \<Rightarrow>
              (\<exists>ao. res = Inr ao \<and> challenge ao = c2)
              \<and> currentChallenge s2 = Some c2
              \<and> (\<forall>d' r. rr_challenge r = c1 \<longrightarrow>
                    isl (fst (register_verify verifyRegistrationResponse d' s2 (Some r))))
              \<and> (\<forall>d' a. as_challenge a = c1 \<longrightarrow>
                    isl (fst (login_verify verifyAuthenticationResponse d' s2 (Some a)))))"
proof -
  have reg_fails: "isl (fst (register_verify verifyRegistrationResponse d' s2 (Some r)))"
    if "currentChallenge s2 = Some c2" and "rr_challenge r = c1"
    for d' :: db and s2 :: session and r :: registration_response
    using that fresh
    by (simp add: register_verify_def verifyRegistrationResponse_def Let_def)
  have login_fails: "isl (fst (login_verify verifyAuthenticationResponse d' s2 (Some a)))"
    if "currentChallenge s2 = Some c2" and "as_challenge a = c1"
    for d' :: db and s2 :: session and a :: assertion_response
    using that fresh
    by (simp add: login_verify_def verifyAuthenticationResponse_def Let_def
        split: list.splits)
  obtain ro where ro: "g \<lparr>roa_rpName = rpName, roa_rpID = rpID, roa_userID = newUserId,
                         roa_userName = the (rsb_username rb),
                         roa_userDisplayName = the (rsb_username rb),
                         roa_attestationType = ''none'', roa_residentKey = ''preferred'',
                         roa_userVerification = ''preferred''\<rparr> = Inr ro"
      and cro: "challenge ro = c2"
    using reg_lib by blast
  have reg: "register_start g newUserId d s1 rb =
               (Inr ro,
                s1\<lparr>currentChallenge := Some c2,
                   registrationUser :=
                     Some \<lparr>p_userId = newUserId, p_username = the (rsb_username rb),
                           p_email = the (rsb_email rb)\<rparr>\<rparr>)"
    using body no_conflict ro cro by (simp add: register_start_def Let_def)
  obtain ao where ao: "g' \<lparr>aoa_rpID = rpID, aoa_userVerification = ''preferred'',
                          aoa_allowCredentials =
                            (if truthy un
                             then Some (map (\<lambda>(cid, ts).
                                     \<lparr>ac_id = base64urlToBuffer cid, ac_type = ''public-key'',
                                      ac_transports = (case ts of None \<Rightarrow> [] | Some t \<Rightarrow> t)\<rparr>)
                                   (select_credentials_of_username d (the un)))
                             else None)\<rparr> = Inr ao"
      and cao: "challenge ao = c2"
    using auth_lib by blast
  have login: "login_start g' d s1 un = (Inr ao, s1\<lparr>currentChallenge := Some c2\<rparr>)"
    using has_rows ao cao by (auto simp: login_start_def Let_def)
  show ?thesis
    unfolding reg login prod.case
    using cro cao reg_fails login_fails by simp
qed

theorem second_start_overwrites_witness:
  "currentChallenge ana_pending_session = Some ''c1''
   \<and> ''c2'' \<noteq> ''c1''
   \<and> truthy (rsb_username \<lparr>rsb_username = Some ''bob'', rsb_email = Some ''bob@example.com''\<rparr>)
   \<and> truthy (rsb_email \<lparr>rsb_username = Some ''bob'', rsb_email = Some ''bob@example.com''\<rparr>)
   \<and> select_existing_user migrated_db ''bob'' ''bob@example.com'' = []
   \<and> register_start (generateRegistrationOptions ''c2'') ''user_2'' migrated_db
        ana_pending_session \<lparr>rsb_username = Some ''bob'', rsb_email = Some ''bob@example.com''\<rparr>
      = (Inr \<lparr>challenge = ''c2'',
               params = \<lparr>roa_rpName = rpName, roa_rpID = rpID, roa_userID = ''user_2'',
                         roa_userName = ''bob'', roa_userDisplayName = ''bob'',
                         roa_attestationType = ''none'', roa_residentKey = ''preferred'',
                         roa_userVerification = ''preferred''\<rparr>\<rparr>,
         bob_pending_session\<lparr>currentChallenge := Some ''c2''\<rparr>)
   \<and> rr_challenge ana_attestation = ''c1''
   \<and> isl (fst (register_verify verifyRegistrationResponse migrated_db
                   (bob_pending_session\<lparr>currentChallenge := Some ''c2''\<rparr>)
                   (Some ana_attestation)))
   \<and> login_start (generateAuthenticationOptions ''c2'') migrated_db ana_pending_session None
       = (Inr \<lparr>challenge = ''c2'',
                params = \<lparr>aoa_rpID = rpID, aoa_userVerification = ''preferred'',
                          aoa_allowCredentials = None\<rparr>\<rparr>,
          ana_pending_session\<lparr>currentChallenge := Some ''c2''\<rparr>)
   \<and> isl (fst (register_verify verifyRegistrationResponse migrated_db
                   (ana_pending_session\<lparr>currentChallenge := Some ''c2''\<rparr>)
                   (Some ana_attestation)))
   \<and> as_challenge (crafted_assertion\<lparr>as_challenge := ''c1''\<rparr>) = ''c1''
   \<and> isl (fst (login_verify verifyAuthenticationResponse registered_db
                   (ana_pending_session\<lparr>currentChallenge := Some ''c2''\<rparr>)
                   (Some (crafted_assertion\<lparr>as_challenge := ''c1''\<rparr>))))"
proof -
  let ?rb = "\<lparr>rsb_username = Some ''bob'', rsb_email = Some ''bob@example.com''\<rparr>"
  have 1: "currentChallenge ana_pending_session = Some ''c1''"
    by (simp add: ana_pending_session_def)
  have 2: "''c2'' \<noteq> ''c1''"
    by simp
  have 3: "\<exists>ro. generateRegistrationOptions ''c2'' args = Inr ro \<and> challenge ro = ''c2''"
    for args
    by (simp add: generateRegistrationOptions_def)
  have 4: "\<exists>ao. generateAuthenticationOptions ''c2'' args = Inr ao \<and> challenge ao = ''c2''"
    for args
    by (simp add: generateAuthenticationOptions_def)
  have 5: "truthy (rsb_username ?rb)" and 6: "truthy (rsb_email ?rb)"
    by (simp_all add: truthy_def)
  have 7: "select_existing_user migrated_db (the (rsb_username ?rb)) (the (rsb_email ?rb)) = []"
    by (simp add: select_existing_user_def migrated_db_def)
  have 8: "truthy None \<longrightarrow> select_credentials_of_username migrated_db (the None) \<noteq> []"
    by (simp add: truthy_def)
  have rs: "register_start (generateRegistrationOptions ''c2'') ''user_2'' migrated_db
              ana_pending_session ?rb
      = (Inr \<lparr>challenge = ''c2'',
               params = \<lparr>roa_rpName = rpName, roa_rpID = rpID, roa_userID = ''user_2'',
                         roa_userName = ''bob'', roa_userDisplayName = ''bob'',
                         roa_attestationType = ''none'', roa_residentKey = ''preferred'',
                         roa_userVerification = ''preferred''\<rparr>\<rparr>,
         bob_pending_session\<lparr>currentChallenge := Some ''c2''\<rparr>)"
    by (simp add: register_start_def truthy_def Let_def select_existing_user_def
        migrated_db_def generateRegistrationOptions_def ana_pending_session_def
        bob_pending_session_def)
  have ls: "login_start (generateAuthenticationOptions ''c2'') migrated_db
              ana_pending_session None
       = (Inr \<lparr>challenge = ''c2'',
                params = \<lparr>aoa_rpID = rpID, aoa_userVerification = ''preferred'',
                          aoa_allowCredentials = None\<rparr>\<rparr>,
          ana_pending_session\<lparr>currentChallenge := Some ''c2''\<rparr>)"
    by (simp add: login_start_def truthy_def Let_def generateAuthenticationOptions_def)
  have 9: "rr_challenge ana_attestation = ''c1''"
    by (simp add: ana_attestation_def)
  have 10: "as_challenge (crafted_assertion\<lparr>as_challenge := ''c1''\<rparr>) = ''c1''"
    by simp
  note inst = second_start_overwrites[where g = "generateRegistrationOptions ''c2''"
      and g' = "generateAuthenticationOptions ''c2''" and newUserId = "''user_2''"
      and d = migrated_db and rb = ?rb and un = None, OF 1 2 3 4 5 6 7 8]
  from inst 9 have a: "isl (fst (register_verify verifyRegistrationResponse migrated_db
                   (bob_pending_session\<lparr>currentChallenge := Some ''c2''\<rparr>)
                   (Some ana_attestation)))"
    unfolding rs ls prod.case by blast
  from inst 9 have b: "isl (fst (register_verify verifyRegistrationResponse migrated_db
                   (ana_pending_session\<lparr>currentChallenge := Some ''c2''\<rparr>)
                   (Some ana_attestation)))"
    unfolding rs ls prod.case by blast
  from inst 10 have c: "isl (fst (login_verify verifyAuthenticationResponse registered_db
                   (ana_pending_session\<lparr>currentChallenge := Some ''c2''\<rparr>)
                   (Some (crafted_assertion\<lparr>as_challenge := ''c1''\<rparr>))))"
    unfolding rs ls prod.case by blast
  from 1 2 5 6 7 rs ls 9 10 a b c show ?thesis by simp
qed



text \<open>
  Claim C9. Of two concurrent authentication verify calls that present the same signed
  response, at most one succeeds. The code departs from this: the handler reads the
  credential row (line 304) and writes the counter (line 336) in separate awaited
  statements, with no transaction and no condition on the stored counter. Two calls in one
  session present the same assertion for ana's credential, counter 6 against the stored 5
  (\<open>rawId\<close> written by hand, so that line 301 finds the row); when both read the row
  before either writes, both are accepted and both write 6. Run one after the other, the
  second is rejected.
\<close>

theorem concurrent_replay_both_accepted:
  "run_two verifyAuthenticationResponse [First, Second, First, Second, First, Second]
     (registered_db, Received login_session (Some crafted_assertion),
      Received login_session (Some crafted_assertion))
   = (update_counter 6 ''AQID'' registered_db,
      Responded (Inr \<lparr>up_id = 4, up_username = ''ana'', up_email = ''ana@example.com''\<rparr>)
        \<lparr>currentChallenge = None, registrationUser = None, userId = Some 4,
         username = Some ''ana''\<rparr>,
      Responded (Inr \<lparr>up_id = 4, up_username = ''ana'', up_email = ''ana@example.com''\<rparr>)
        \<lparr>currentChallenge = None, registrationUser = None, userId = Some 4,
         username = Some ''ana''\<rparr>)
   \<and> run_two verifyAuthenticationResponse [First, First, First, Second, Second, Second]
       (registered_db, Received login_session (Some crafted_assertion),
        Received login_session (Some crafted_assertion))
     = (update_counter 6 ''AQID'' registered_db,
        Responded (Inr \<lparr>up_id = 4, up_username = ''ana'', up_email = ''ana@example.com''\<rparr>)
          \<lparr>currentChallenge = None, registrationUser = None, userId = Some 4,
           username = Some ''ana''\<rparr>,
        Responded (Inl (HttpError VerificationError 400 ''Verification failed''))
          login_session)"
proof
  show "run_two verifyAuthenticationResponse [First, Second, First, Second, First, Second]
     (registered_db, Received login_session (Some crafted_assertion),
      Received login_session (Some crafted_assertion))
   = (update_counter 6 ''AQID'' registered_db,
      Responded (Inr \<lparr>up_id = 4, up_username = ''ana'', up_email = ''ana@example.com''\<rparr>)
        \<lparr>currentChallenge = None, registrationUser = None, userId = Some 4,
         username = Some ''ana''\<rparr>,
      Responded (Inr \<lparr>up_id = 4, up_username = ''ana'', up_email = ''ana@example.com''\<rparr>)
        \<lparr>currentChallenge = None, registrationUser = None, userId = Some 4,
         username = Some ''ana''\<rparr>)"
    by (rule run_interleaved[OF crafted_logs_in])
next
  show "run_two verifyAuthenticationResponse [First, First, First, Second, Second, Second]
       (registered_db, Received login_session (Some crafted_assertion),
        Received login_session (Some crafted_assertion))
     = (update_counter 6 ''AQID'' registered_db,
        Responded (Inr \<lparr>up_id = 4, up_username = ''ana'', up_email = ''ana@example.com''\<rparr>)
          \<lparr>currentChallenge = None, registrationUser = None, userId = Some 4,
           username = Some ''ana''\<rparr>,
        Responded (Inl (HttpError VerificationError 400 ''Verification failed''))
          login_session)"
    by (simp only: run_in_sequence crafted_logs_in crafted_replays prod.case)
qed

text \<open>
  Claim C10. For every byte buffer \<open>b\<close>, \<open>base64urlToBuffer (bufferToBase64url b) = b\<close>:
  the text stored for a credential identifier or a public key at registration decodes to
  the very bytes it was made from.
\<close>

theorem base64url_roundtrip: "base64urlToBuffer (bufferToBase64url b) = b"
proof -
  have lt: "\<forall>s \<in> set (sextetsOf b). s < 64"
    using sextetsOf_lt by blast
  show ?thesis
    unfolding base64urlToBuffer_def bufferToBase64url_def toBase64_def Let_def fromBase64_def
    by (simp only: url_there_and_back[OF lt] readSextets_encoded[OF lt] bytesOf_sextetsOf)
qed

theorem base64url_roundtrip_witness:
  "base64urlToBuffer (bufferToBase64url [9, 8, 7, 6]) = [9, 8, 7, 6]"
  by (rule base64url_roundtrip)

end
